theory Spec2Isabelle
  imports Main "HOL-Library.Sublist" "HOL-Library.Word"
begin

section \<open>Python values\<close>

text \<open>
  A Python \<open>str\<close> is a \<open>string\<close> holding the UTF-8 encoding of the text. The module's
  Russian literals are written with \<open>hx\<close>, which decodes pairs of hexadecimal digits into
  bytes; the comment beside each gives the text in English. \<open>bytes\<close> is a list of octets.
\<close>

type_synonym bytes = "8 word list"

fun hex_digit :: "char \<Rightarrow> nat" where
  "hex_digit c =
     (let n = of_char c :: nat
      in if 48 \<le> n \<and> n \<le> 57 then n - 48
         else if 65 \<le> n \<and> n \<le> 70 then n - 55
         else 0)"

fun hx :: "string \<Rightarrow> string" where
  "hx (a # b # cs) = char_of (16 * hex_digit a + hex_digit b) # hx cs"
| "hx _ = []"

text \<open>\<open>str(n)\<close> for an integer: its decimal digits.\<close>

fun str_nat :: "nat \<Rightarrow> string" where
  "str_nat n =
     (if n < 10 then [char_of (48 + n)]
      else str_nat (n div 10) @ [char_of (48 + n mod 10)])"

declare str_nat.simps [simp del]

definition str_int :: "int \<Rightarrow> string" where
  "str_int i = (if i < 0 then CHR ''-'' # str_nat (nat (- i)) else str_nat (nat i))"

text \<open>What \<open>response.json()\<close> parses a body to. An object is the list of its items, a
  \<open>float\<close> its 64 bits.\<close>

datatype json =
    JNull
  | JBool bool
  | JInt int
  | JFloat "64 word"
  | JStr string
  | JArr "json list"
  | JObj "(string \<times> json) list"

text \<open>
  What can be raised. The instances of \<open>Exception\<close>: the ones the module raises itself
  (\<open>ValueError\<close>, and \<open>Exception\<close> as \<open>PlainException\<close>), the ones the interpreter raises
  on a bad lookup, and whatever else a library call raises (\<open>LibraryError\<close>, with its
  text). And what is no \<open>Exception\<close>: \<open>asyncio.CancelledError\<close>, which an \<open>await\<close> raises in
  a task that has been cancelled, and the other direct descendants of \<open>BaseException\<close>
  (an interrupt, an exit), with their text. An \<open>except Exception\<close> catches the first
  kind only. (The module calls \<open>asyncio.to_thread\<close>, which Python has from 3.9 on; there
  \<open>CancelledError\<close> descends from \<open>BaseException\<close> directly.)
\<close>

datatype exn =
    ValueError string
  | TypeError string
  | KeyError string
  | PlainException string
  | LibraryError string
  | CancelledError
  | OtherBaseException string

fun is_exception :: "exn \<Rightarrow> bool" where
  "is_exception CancelledError = False"
| "is_exception (OtherBaseException m) = False"
| "is_exception e = True"

definition quoted :: "string \<Rightarrow> string" where
  "quoted s = [CHR 0x27] @ s @ [CHR 0x27]"

text \<open>\<open>str(e)\<close>: the message; a \<open>KeyError\<close> shows the \<open>repr\<close> of its key.\<close>

fun str_exn :: "exn \<Rightarrow> string" where
  "str_exn (ValueError m) = m"
| "str_exn (TypeError m) = m"
| "str_exn (KeyError k) = quoted k"
| "str_exn (PlainException m) = m"
| "str_exn (LibraryError m) = m"
| "str_exn CancelledError = []"
| "str_exn (OtherBaseException m) = m"

text \<open>\<open>key in data\<close> and \<open>data[key]\<close> for a string key and a parsed JSON value.\<close>

definition not_iterable :: "string \<Rightarrow> exn" where
  "not_iterable ty = TypeError (''argument of type '' @ quoted ty @ '' is not iterable'')"

definition not_subscriptable :: "string \<Rightarrow> exn" where
  "not_subscriptable ty = TypeError (quoted ty @ '' object is not subscriptable'')"

fun py_contains :: "string \<Rightarrow> json \<Rightarrow> exn + bool" where
  "py_contains k (JObj kvs) = Inr (k \<in> set (map fst kvs))"
| "py_contains k (JArr xs) = Inr (JStr k \<in> set xs)"
| "py_contains k (JStr s) = Inr (sublist k s)"
| "py_contains k JNull = Inl (not_iterable ''NoneType'')"
| "py_contains k (JBool b) = Inl (not_iterable ''bool'')"
| "py_contains k (JInt n) = Inl (not_iterable ''int'')"
| "py_contains k (JFloat x) = Inl (not_iterable ''float'')"

fun py_getitem :: "json \<Rightarrow> string \<Rightarrow> exn + json" where
  "py_getitem (JObj kvs) k =
     (case map_of kvs k of None \<Rightarrow> Inl (KeyError k) | Some v \<Rightarrow> Inr v)"
| "py_getitem (JArr xs) k =
     Inl (TypeError ''list indices must be integers or slices, not str'')"
| "py_getitem (JStr s) k =
     Inl (TypeError (''string indices must be integers, not '' @ quoted ''str''))"
| "py_getitem JNull k = Inl (not_subscriptable ''NoneType'')"
| "py_getitem (JBool b) k = Inl (not_subscriptable ''bool'')"
| "py_getitem (JInt n) k = Inl (not_subscriptable ''int'')"
| "py_getitem (JFloat x) k = Inl (not_subscriptable ''float'')"

text \<open>What \<open>client.files.get\<close> may hand back: \<open>bytes\<close>, or an object of another type
  (named by \<open>str(type(x))\<close>).\<close>

datatype pyobj = Bytes bytes | OtherObject string

text \<open>A decoded picture: its mode and its pixel data.\<close>

datatype image = Image string bytes

section \<open>The remote service and the libraries\<close>

text \<open>An answer to a request: its status and headers, and what \<open>response.json()\<close> and
  \<open>response.text()\<close> give or raise when they are awaited.\<close>

record http_response =
  status :: int
  headers :: "(string \<times> string) list"
  json_body :: "exn + json"
  text_body :: "exn + string"

text \<open>\<open>response.headers.get(name, default)\<close>: the first header of that name, whatever
  the case of its letters.\<close>

definition lower_ascii :: "char \<Rightarrow> char" where
  "lower_ascii c =
     (let n = of_char c :: nat
      in if 65 \<le> n \<and> n \<le> 90 then char_of (n + 32) else c)"

definition headers_get :: "http_response \<Rightarrow> string \<Rightarrow> string \<Rightarrow> string" where
  "headers_get response name dflt =
     (case map_of (map (\<lambda>(k, v). (map lower_ascii k, v)) (headers response))
             (map lower_ascii name) of
        None \<Rightarrow> dflt
      | Some v \<Rightarrow> v)"

text \<open>The \<open>input\<close> dictionary of a generation job, a field for each key.\<close>

record input_params =
  in_prompt :: string
  in_aspect_ratio :: string
  in_reference_tags :: "string list"
  in_reference_images :: "json list"
  in_output_resolution :: string

text \<open>What \<open>prediction.output\<close> holds: a \<open>str\<close>, or another object with its \<open>str()\<close>.\<close>

datatype pred_output = OutStr string | OutOther string

record prediction =
  pid :: string
  pstatus :: string
  poutput :: pred_output
  perror :: "string option"

text \<open>
  Everything outside the module: the process environment, the HTTP endpoints, the
  \<open>replicate\<close> client, \<open>magic\<close>, \<open>PIL\<close>, the event loop and the clock. A call either
  raises or returns. \<open>predictions_get n\<close> is the answer to the \<open>n\<close>-th poll of a job, and
  \<open>sleep n\<close> what the \<open>asyncio.sleep\<close> before that poll raises, if it raises.
\<close>

record world =
  environ :: "string \<rightharpoonup> string"
  http_post :: "string \<Rightarrow> (string \<times> string) list \<Rightarrow> bytes \<Rightarrow> exn + http_response"
  http_get :: "string \<Rightarrow> (string \<times> string) list \<Rightarrow> exn + http_response"
  files_get :: "json \<Rightarrow> exn + pyobj"
  magic_from_buffer :: "bytes \<Rightarrow> exn + string"
  image_open :: "bytes \<Rightarrow> exn + image"
  convert_save :: "image \<Rightarrow> string \<Rightarrow> string \<Rightarrow> nat \<Rightarrow> exn + bytes"
  predictions_create :: "string \<Rightarrow> input_params \<Rightarrow> exn + prediction"
  predictions_get :: "nat \<Rightarrow> string \<Rightarrow> exn + prediction"
  sleep :: "nat \<Rightarrow> nat \<Rightarrow> exn option"
  now_isoformat :: string

text \<open>The calls a run makes on the outside, in the order it makes them.\<close>

datatype event =
    HttpPost string "(string \<times> string) list" bytes
  | HttpGet string "(string \<times> string) list"
  | FilesGet json
  | MagicFromBuffer bytes
  | ImageOpen bytes
  | ConvertSave image string string nat
  | PredictionsCreate string input_params
  | Sleep nat
  | PredictionsGet string

section \<open>\<open>upload_image_to_replicate\<close>\<close>

definition msg_no_url :: string where
  \<comment> \<open>"The response holds no URL"\<close>
  "msg_no_url =
     hx ''D09ED182D0B2D0B5D18220D0BDD0B520D181D0BED0B4D0B5D180D0B6D0B8D18220'' @ ''URL''"

definition msg_upload_error :: string where
  \<comment> \<open>"Upload to Replicate failed: HTTP "\<close>
  "msg_upload_error =
     hx ''D09ED188D0B8D0B1D0BAD0B020D0B7D0B0D0B3D180D183D0B7D0BAD0B820D0BDD0B0'' @
       '' Replicate: HTTP ''"

text \<open>
  The \<open>try\<close> of the source logs and re-raises an \<open>Exception\<close> and catches nothing else,
  so whatever is raised leaves the function unchanged. The result is \<open>data['url']\<close> as
  parsed, with the events of the call.
\<close>

definition upload_image_to_replicate ::
    "world \<Rightarrow> bytes \<Rightarrow> string \<Rightarrow> (exn + json) \<times> event list" where
  "upload_image_to_replicate w image_bytes filename =
     (let url = ''https://api.replicate.com/v1/files''
      in case environ w ''REPLICATE_API_TOKEN'' of
           None \<Rightarrow> (Inl (KeyError ''REPLICATE_API_TOKEN''), [])
         | Some token \<Rightarrow>
             (let hdrs = [(''Authorization'', ''Token '' @ token),
                          (''Content-Type'', ''application/octet-stream''),
                          (''X-File-Name'', filename)];
                  result =
                    (case http_post w url hdrs image_bytes of
                       Inl e \<Rightarrow> Inl e
                     | Inr response \<Rightarrow>
                         (if status response = 201 then
                            (case json_body response of
                               Inl e \<Rightarrow> Inl e
                             | Inr data \<Rightarrow>
                                 (case py_contains ''url'' data of
                                    Inl e \<Rightarrow> Inl e
                                  | Inr True \<Rightarrow> py_getitem data ''url''
                                  | Inr False \<Rightarrow> Inl (PlainException msg_no_url)))
                          else (case text_body response of
                                  Inl e \<Rightarrow> Inl e
                                | Inr error_text \<Rightarrow>
                                    Inl (PlainException
                                      (msg_upload_error @ str_int (status response) @
                                       '' - '' @ error_text)))))
              in (result, [HttpPost url hdrs image_bytes])))"

section \<open>\<open>download_image\<close>\<close>

definition msg_expected_json :: string where
  \<comment> \<open>"JSON was expected in the metadata, got Content-Type: "\<close>
  "msg_expected_json =
     hx ''D09ED0B6D0B8D0B4D0B0D0BBD181D18F'' @ '' JSON '' @
       hx ''D0B220D0BCD0B5D182D0B0D0B4D0B0D0BDD0BDD18BD1852C20D0BFD0BED0BBD183D187D0'' @
       hx ''B5D0BD'' @ '' Content-Type: ''"

definition msg_no_id :: string where
  \<comment> \<open>"The metadata holds no file id"\<close>
  "msg_no_id =
     hx ''D09CD0B5D182D0B0D0B4D0B0D0BDD0BDD18BD0B520D0BDD0B520D181D0BED0B4D0B5D180'' @
       hx ''D0B6D0B0D18220696420D184D0B0D0B9D0BBD0B0''"

definition msg_metadata_error :: string where
  \<comment> \<open>"Fetching the metadata failed: HTTP "\<close>
  "msg_metadata_error =
     hx ''D09ED188D0B8D0B1D0BAD0B020D0BFD0BED0BBD183D187D0B5D0BDD0B8D18F20D0BCD0B5'' @
       hx ''D182D0B0D0B4D0B0D0BDD0BDD18BD185'' @ '': HTTP ''"

definition msg_not_bytes :: string where
  \<comment> \<open>"replicate.Client.files.get returned non-binary data: type "\<close>
  "msg_not_bytes =
     ''replicate.Client.files.get '' @
       hx ''D0B2D0B5D180D0BDD183D0BB20D0BDD0B520D0B1D0B8D0BDD0B0D180D0BDD18BD0B520D0'' @
       hx ''B4D0B0D0BDD0BDD18BD0B53A20D182D0B8D0BF20''"

definition msg_not_image :: string where
  \<comment> \<open>"The downloaded data is not an image: MIME type "\<close>
  "msg_not_image =
     hx ''D0A1D0BAD0B0D187D0B0D0BDD0BDD18BD0B520D0B4D0B0D0BDD0BDD18BD0B520D0BDD0B5'' @
       hx ''20D18FD0B2D0BBD18FD18ED182D181D18F20D0B8D0B7D0BED0B1D180D0B0D0B6D0B5D0BD'' @
       hx ''D0B8D0B5D0BC'' @ '': MIME-'' @ hx ''D182D0B8D0BF20''"

text \<open>
  Step 1 asks the metadata URL for the file's \<open>id\<close>; step 2 fetches the file through the
  client and checks what came back. The \<open>client\<close> argument of the source is the
  \<open>files_get\<close> of the world. As in the upload, the \<open>try\<close> only logs and re-raises.
\<close>

definition download_image ::
    "world \<Rightarrow> string \<Rightarrow> string \<Rightarrow> (exn + bytes) \<times> event list" where
  "download_image w api_key url =
     (let hdrs = [(''Authorization'', ''Token '' @ api_key), (''Accept'', ''application/json'')];
          step1 =
            (case http_get w url hdrs of
               Inl e \<Rightarrow> Inl e
             | Inr response \<Rightarrow>
                 (if status response = 200 then
                    (let content_type = headers_get response ''Content-Type'' []
                     in if \<not> prefix ''application/json'' content_type
                        then Inl (PlainException (msg_expected_json @ content_type))
                        else (case json_body response of
                                Inl e \<Rightarrow> Inl e
                              | Inr metadata \<Rightarrow>
                                  (case py_contains ''id'' metadata of
                                     Inl e \<Rightarrow> Inl e
                                   | Inr False \<Rightarrow> Inl (PlainException msg_no_id)
                                   | Inr True \<Rightarrow> py_getitem metadata ''id'')))
                  else (case text_body response of
                          Inl e \<Rightarrow> Inl e
                        | Inr error_text \<Rightarrow>
                            Inl (PlainException
                              (msg_metadata_error @ str_int (status response) @ '' - '' @
                               error_text)))))
      in case step1 of
           Inl e \<Rightarrow> (Inl e, [HttpGet url hdrs])
         | Inr file_id \<Rightarrow>
             (case files_get w file_id of
                Inl e \<Rightarrow> (Inl e, [HttpGet url hdrs, FilesGet file_id])
              | Inr (OtherObject ty) \<Rightarrow>
                  (Inl (PlainException (msg_not_bytes @ ty)),
                   [HttpGet url hdrs, FilesGet file_id])
              | Inr (Bytes file_content) \<Rightarrow>
                  (let evs = [HttpGet url hdrs, FilesGet file_id,
                              MagicFromBuffer file_content]
                   in case magic_from_buffer w file_content of
                        Inl e \<Rightarrow> (Inl e, evs)
                      | Inr file_type \<Rightarrow>
                          if \<not> prefix ''image/'' file_type
                          then (Inl (PlainException (msg_not_image @ file_type)), evs)
                          else (Inr file_content, evs))))"

section \<open>\<open>PhotoTransformGenerator\<close>\<close>

record style_config =
  style_name :: string
  style_description :: string
  prompt_template :: string
  model :: string
  model_type :: string
  style_aspect_ratio :: string

text \<open>The attributes of the generator; a \<open>dict\<close> is the list of its items in
  insertion order. The \<open>client\<close> attribute is the world's \<open>replicate\<close> client.\<close>

record generator =
  api_key :: string
  styles :: "(string \<times> style_config) list"
  aspect_ratios :: "(string \<times> string) list"
  aspect_ratio_map :: "(string \<times> string) list"
  resolutions :: "(string \<times> string) list"

definition photoshop_style :: style_config where
  "photoshop_style =
     \<lparr>style_name =
        \<comment> \<open>(white heart) Photoshop\<close>
          hx ''F09FA48D20D0A4D0BED182D0BED188D0BED0BF'',
      style_description =
        \<comment> \<open>Better quality, nothing changed\<close>
          hx ''D0A3D0BBD183D187D188D0B5D0BDD0B8D0B520D0BAD0B0D187D0B5D181D182D0B2D0B020'' @
            hx ''D0B1D0B5D0B720D0B8D0B7D0BCD0B5D0BDD0B5D0BDD0B8D0B9'',
      prompt_template =
          ''Professional portrait photo of @person, enhanced quality, flawless high-'' @
            ''definition smooth beautiful skin, perfect even skin tone, flawless compl'' @
            ''exion, razor-sharp focus on eyes, detailed ultra-realistic eyes, clean b'' @
            ''ackground, natural colors, perfect lighting, photorealistic, ultra-high '' @
            ''resolution, 16K, masterpiece, best quality, hyper-detailed, no artifacts'' @
            '', sharp details everywhere, crystal-clear sharpness, flawless 32K resolu'' @
            ''tion'',
      model = ''runwayml/gen4-image'',
      model_type = ''gen4'',
      style_aspect_ratio = ''3:4''\<rparr>"

definition art_style :: style_config where
  "art_style =
     \<lparr>style_name =
        \<comment> \<open>(palette) AI Art\<close>
          hx ''F09F8EA8'' @ '' AI Art'',
      style_description =
        \<comment> \<open>An illustration in an artist's manner\<close>
          hx ''D098D0BBD0BBD18ED181D182D180D0B0D186D0B8D18F20D0B220D0B0D0B2D182D0BED180'' @
            hx ''D181D0BAD0BED0BC20D181D182D0B8D0BBD0B5'',
      prompt_template =
          ''Digital art illustration of @person, artistic style, flawless high-defin'' @
            ''ition smooth beautiful skin, perfect even skin tone, flawless complexion'' @
            '', razor-sharp focus on eyes, detailed ultra-realistic eyes, pastel color'' @
            ''s, creative portrait, Pinterest aesthetic, beautiful lighting, stylized,'' @
            '' ultra-high resolution, 16K, masterpiece, best quality, hyper-detailed, '' @
            ''no artifacts, sharp details everywhere, crystal-clear sharpness, flawles'' @
            ''s 32K resolution'',
      model = ''runwayml/gen4-image'',
      model_type = ''gen4'',
      style_aspect_ratio = ''3:4''\<rparr>"

definition cinema_style :: style_config where
  "cinema_style =
     \<lparr>style_name =
        \<comment> \<open>(clapper board) Cinema\<close>
          hx ''F09F8EAC20D09AD0B8D0BDD0BE'',
      style_description =
        \<comment> \<open>A frame from a feature film\<close>
          hx ''D09AD0B0D0B4D18020D0B8D0B720D185D183D0B4D0BED0B6D0B5D181D182D0B2D0B5D0BD'' @
            hx ''D0BDD0BED0B3D0BE20D184D0B8D0BBD18CD0BCD0B0'',
      prompt_template =
          ''Cinematic portrait of @person, movie scene, flawless high-definition smo'' @
            ''oth beautiful skin, perfect even skin tone, flawless complexion, razor-s'' @
            ''harp focus on eyes, detailed ultra-realistic eyes, dramatic lighting, fi'' @
            ''lm grain, atmospheric colors, professional cinematography, ultra-high re'' @
            ''solution, 16K, masterpiece, best quality, hyper-detailed, no artifacts, '' @
            ''sharp details everywhere, crystal-clear sharpness, flawless 32K resoluti'' @
            ''on'',
      model = ''runwayml/gen4-image'',
      model_type = ''gen4'',
      style_aspect_ratio = ''3:4''\<rparr>"

definition portrait_style :: style_config where
  "portrait_style =
     \<lparr>style_name =
        \<comment> \<open>(brain) Portrait\<close>
          hx ''F09FA7A020D09FD0BED180D182D180D0B5D182'',
      style_description =
        \<comment> \<open>A deep psychological image\<close>
          hx ''D093D0BBD183D0B1D0BED0BAD0B8D0B920D0BFD181D0B8D185D0BED0BBD0BED0B3D0B8D1'' @
            hx ''87D0B5D181D0BAD0B8D0B920D0BED0B1D180D0B0D0B7'',
      prompt_template =
          ''Deep psychological portrait of @person, soft shadows, face focus, flawle'' @
            ''ss high-definition smooth beautiful skin, perfect even skin tone, flawle'' @
            ''ss complexion, razor-sharp focus on eyes, detailed ultra-realistic eyes,'' @
            '' character photography, soulful expression, professional photographer st'' @
            ''yle, ultra-high resolution, 16K, masterpiece, best quality, hyper-detail'' @
            ''ed, no artifacts, sharp details everywhere, crystal-clear sharpness, fla'' @
            ''wless 32K resolution'',
      model = ''runwayml/gen4-image'',
      model_type = ''gen4'',
      style_aspect_ratio = ''3:4''\<rparr>"

definition fantasy_style :: style_config where
  "fantasy_style =
     \<lparr>style_name =
        \<comment> \<open>(lightning) Science fiction\<close>
          hx ''E29AA120D0A4D0B0D0BDD182D0B0D181D182D0B8D0BAD0B0'',
      style_description =
        \<comment> \<open>Neon, sci-fi, visual drive\<close>
          hx ''D09DD0B5D0BED0BD'' @ '', sci-fi, '' @
            hx ''D0B2D0B8D0B7D183D0B0D0BBD18CD0BDD18BD0B920D0B4D180D0B0D0B9D0B2'',
      prompt_template =
          ''Cyberpunk portrait of @person, neon lights, sci-fi style, flawless high-'' @
            ''definition smooth beautiful skin, perfect even skin tone, flawless compl'' @
            ''exion, razor-sharp focus on eyes, detailed ultra-realistic eyes, futuris'' @
            ''tic, glitch effects, dramatic lighting, cosmic atmosphere, ultra-high re'' @
            ''solution, 16K, masterpiece, best quality, hyper-detailed, no artifacts, '' @
            ''sharp details everywhere, crystal-clear sharpness, flawless 32K resoluti'' @
            ''on'',
      model = ''runwayml/gen4-image'',
      model_type = ''gen4'',
      style_aspect_ratio = ''3:4''\<rparr>"

definition lego_style :: style_config where
  "lego_style =
     \<lparr>style_name =
        \<comment> \<open>(brick) LEGO\<close>
          hx ''F09FA7B1204C45474F'',
      style_description =
        \<comment> \<open>Turning into a LEGO minifigure\<close>
          hx ''D09FD180D0B5D0B2D180D0B0D189D0B5D0BDD0B8D0B520D0B2'' @ '' LEGO '' @
            hx ''D0BCD0B8D0BDD0B8D184D0B8D0B3D183D180D0BAD183'',
      prompt_template =
          ''A hyper-detailed LEGO minifigure of @person, ultra-realistic LEGO style,'' @
            '' razor-sharp focus on eyes, detailed eyes, 4K resolution, vibrant colors'' @
            '', precise blocky textures, LEGO hair with stud details, glossy LEGO piec'' @
            ''es, visible brick seams, LEGO cityscape background, cinematic lighting, '' @
            ''plastic sheen, blocky toy-like nature, perfect LEGO brick alignment, stu'' @
            ''d patterns, reflective plastic surfaces, ultra-high resolution, 16K, mas'' @
            ''terpiece, best quality, no artifacts, sharp details everywhere, crystal-'' @
            ''clear sharpness, flawless 32K resolution'',
      model = ''runwayml/gen4-image'',
      model_type = ''gen4'',
      style_aspect_ratio = ''3:4''\<rparr>"

text \<open>\<open>__init__\<close>: stores the key, exports it to the process environment and fills the
  tables.\<close>

definition init :: "string \<Rightarrow> world \<Rightarrow> generator \<times> world" where
  "init replicate_api_key w =
     (\<lparr>api_key = replicate_api_key,
       styles = [(''photoshop'', photoshop_style), (''art'', art_style),
                 (''cinema'', cinema_style), (''portrait'', portrait_style),
                 (''fantasy'', fantasy_style), (''lego'', lego_style)],
       aspect_ratios = [(''9:16'', ''9:16''), (''4:3'', ''4:3''), (''3:4'', ''3:4''),
                        (''1:1'', ''1:1''), (''16:9'', ''16:9'')],
       aspect_ratio_map = [(''9'', ''9:16''), (''16'', ''16:9''), (''4'', ''4:3''),
                           (''3'', ''3:4''), (''1'', ''1:1'')],
       resolutions = [(''720p'', ''720p'')]\<rparr>,
      w\<lparr>environ := (environ w)(''REPLICATE_API_TOKEN'' \<mapsto> replicate_api_key)\<rparr>)"

section \<open>\<open>generate_image\<close>\<close>

definition msg_unknown_style :: string where
  \<comment> \<open>"Unknown style: "\<close>
  "msg_unknown_style =
     hx ''D09DD0B5D0B8D0B7D0B2D0B5D181D182D0BDD18BD0B920D181D182D0B8D0BBD18C3A20''"

definition msg_bad_aspect_ratio :: string where
  \<comment> \<open>"Unsupported aspect ratio: "\<close>
  "msg_bad_aspect_ratio =
     hx ''D09DD0B5D0BFD0BED0B4D0B4D0B5D180D0B6D0B8D0B2D0B0D0B5D0BCD0BED0B520D181D0'' @
       hx ''BED0BED182D0BDD0BED188D0B5D0BDD0B8D0B520D181D182D0BED180D0BED0BD3A20''"

definition msg_bad_resolution :: string where
  \<comment> \<open>"Unsupported resolution: "\<close>
  "msg_bad_resolution =
     hx ''D09DD0B5D0BFD0BED0B4D0B4D0B5D180D0B6D0B8D0B2D0B0D0B5D0BCD0BED0B520D180D0'' @
       hx ''B0D0B7D180D0B5D188D0B5D0BDD0B8D0B53A20''"

definition msg_cannot_open :: string where
  \<comment> \<open>"Cannot open the image: "\<close>
  "msg_cannot_open =
     hx ''D09DD0B5D0B2D0BED0B7D0BCD0BED0B6D0BDD0BE20D0BED182D0BAD180D18BD182D18C20'' @
       hx ''D0B8D0B7D0BED0B1D180D0B0D0B6D0B5D0BDD0B8D0B53A20''"

definition msg_finished_with_status :: string where
  \<comment> \<open>"The generation ended with status: "\<close>
  "msg_finished_with_status =
     hx ''D093D0B5D0BDD0B5D180D0B0D186D0B8D18F20D0B7D0B0D0B2D0B5D180D188D0B8D0BBD0'' @
       hx ''B0D181D18C20D181D0BE20D181D182D0B0D182D183D181D0BED0BC3A20''"

text \<open>The dictionary \<open>generate_image\<close> returns: its items in order.\<close>

datatype pyval = VBool bool | VStr string

type_synonym result = "(string \<times> pyval) list"

text \<open>
  The \<open>while\<close> loop (lines 297 to 303). Nothing bounds it: where the job never reaches one
  of the three statuses and neither a sleep nor a fetch raises, it runs forever, which is
  \<open>None\<close> here. \<open>n\<close> counts the rounds made so far, \<open>evs\<close> collects the events.
\<close>

partial_function (option) poll_loop ::
    "world \<Rightarrow> nat \<Rightarrow> prediction \<Rightarrow> event list \<Rightarrow> ((exn + prediction) \<times> event list) option"
where
  "poll_loop w n prediction evs =
     (if pstatus prediction \<notin> set [''succeeded'', ''failed'', ''canceled''] then
        (case sleep w n 2 of
           Some e \<Rightarrow> Some (Inl e, evs @ [Sleep 2])
         | None \<Rightarrow>
        (case predictions_get w n (pid prediction) of
           Inl e \<Rightarrow> Some (Inl e, evs @ [Sleep 2, PredictionsGet (pid prediction)])
         | Inr prediction' \<Rightarrow>
             poll_loop w (Suc n) prediction' (evs @ [Sleep 2, PredictionsGet (pid prediction)])))
      else Some (Inr prediction, evs))"

declare poll_loop.simps [code]

text \<open>The events of a run of the loop that fetched for the ids \<open>ids\<close> in turn.\<close>

definition poll_events :: "string list \<Rightarrow> event list" where
  "poll_events ids = concat (map (\<lambda>i. [Sleep 2, PredictionsGet i]) ids)"


text \<open>
  The \<open>try\<close> block up to the creation of the prediction (lines 240 to 294): the checks of
  the arguments, the download, the re-encoding, the upload and the submission. It gives
  the style's configuration and the new prediction, or the exception that ended it.
\<close>

definition generate_image_submit ::
    "generator \<Rightarrow> world \<Rightarrow> string \<Rightarrow> string \<Rightarrow> int \<Rightarrow> string \<Rightarrow> string \<Rightarrow>
     (exn + style_config \<times> prediction) \<times> event list" where
  "generate_image_submit g w image_url style user_id aspect_ratio resolution =
     (if style \<notin> set (map fst (styles g)) then
        (Inl (ValueError (msg_unknown_style @ style)), [])
      else
        let aspect_ratio' =
              (case map_of (aspect_ratio_map g) aspect_ratio of
                 Some a \<Rightarrow> a
               | None \<Rightarrow> aspect_ratio)
        in if aspect_ratio' \<notin> set (map fst (aspect_ratios g)) then
             (Inl (ValueError (msg_bad_aspect_ratio @ aspect_ratio')), [])
           else if resolution \<notin> set (map fst (resolutions g)) then
             (Inl (ValueError (msg_bad_resolution @ resolution)), [])
           else
             (case map_of (styles g) style of
                None \<Rightarrow> (Inl (KeyError style), [])
              | Some style_config \<Rightarrow>
             (case download_image w (api_key g) image_url of
                (Inl e, evs1) \<Rightarrow> (Inl e, evs1)
              | (Inr image_bytes, evs1) \<Rightarrow>
             (case image_open w image_bytes of
                Inl pil_err \<Rightarrow>
                  (Inl (if is_exception pil_err
                        then ValueError (msg_cannot_open @ str_exn pil_err)
                        else pil_err),
                   evs1 @ [ImageOpen image_bytes])
              | Inr img \<Rightarrow>
             (let evs2 = evs1 @ [ImageOpen image_bytes, ConvertSave img ''RGB'' ''JPEG'' 95]
              in case convert_save w img ''RGB'' ''JPEG'' 95 of
                Inl e \<Rightarrow> (Inl e, evs2)
              | Inr processed_image_bytes \<Rightarrow>
             (case upload_image_to_replicate w processed_image_bytes ''processed.jpg'' of
                (Inl e, evs3) \<Rightarrow> (Inl e, evs2 @ evs3)
              | (Inr processed_url, evs3) \<Rightarrow>
             (let input_params =
                    \<lparr>in_prompt = prompt_template style_config,
                     in_aspect_ratio = aspect_ratio',
                     in_reference_tags = [''person''],
                     in_reference_images = [processed_url],
                     in_output_resolution = resolution\<rparr>;
                  evs4 = evs2 @ evs3 @ [PredictionsCreate (model style_config) input_params]
              in case predictions_create w (model style_config) input_params of
                Inl e \<Rightarrow> (Inl e, evs4)
              | Inr prediction \<Rightarrow> (Inr (style_config, prediction), evs4))))))))"

text \<open>The two dictionaries of lines 318 to 338, for a prediction that left the loop.\<close>

definition success_result :: "world \<Rightarrow> string \<Rightarrow> style_config \<Rightarrow> prediction \<Rightarrow> result" where
  "success_result w style style_config prediction =
     (let result_url = (case poutput prediction of OutStr s \<Rightarrow> s | OutOther s \<Rightarrow> s)
      in [(''success'', VBool True),
          (''result_url'', VStr result_url),
          (''style'', VStr style),
          (''style_name'', VStr (style_name style_config)),
          (''timestamp'', VStr (now_isoformat w)),
          (''prediction_id'', VStr (pid prediction))])"

definition failure_result :: "world \<Rightarrow> string \<Rightarrow> string \<Rightarrow> result" where
  "failure_result w style error_msg =
     [(''success'', VBool False),
      (''error'', VStr error_msg),
      (''style'', VStr style),
      (''timestamp'', VStr (now_isoformat w))]"

definition status_error_msg :: "prediction \<Rightarrow> string" where
  "status_error_msg prediction =
     msg_finished_with_status @ pstatus prediction @
     (case perror prediction of
        None \<Rightarrow> []
      | Some err \<Rightarrow> if err \<noteq> [] then '' - '' @ err else [])"

text \<open>The whole \<open>try\<close> block: submission, the loop, and the result for its last
  prediction.\<close>

definition generate_image_try ::
    "generator \<Rightarrow> world \<Rightarrow> string \<Rightarrow> string \<Rightarrow> int \<Rightarrow> string \<Rightarrow> string \<Rightarrow>
     ((exn + result) \<times> event list) option" where
  "generate_image_try g w image_url style user_id aspect_ratio resolution =
     (case generate_image_submit g w image_url style user_id aspect_ratio resolution of
        (Inl e, evs) \<Rightarrow> Some (Inl e, evs)
      | (Inr (style_config, prediction0), evs) \<Rightarrow>
          (case poll_loop w 0 prediction0 evs of
             None \<Rightarrow> None
           | Some (Inl e, evs') \<Rightarrow> Some (Inl e, evs')
           | Some (Inr prediction, evs') \<Rightarrow>
               Some (Inr (if pstatus prediction = ''succeeded''
                          then success_result w style style_config prediction
                          else failure_result w style (status_error_msg prediction)),
                     evs')))"

text \<open>
  \<open>generate_image\<close>: the \<open>try\<close> block under its \<open>except Exception\<close>. The call returns a
  dictionary (\<open>Inr\<close>), or lets through what the handler does not catch (\<open>Inl\<close>), or never
  ends (\<open>None\<close>).
\<close>

definition generate_image ::
    "generator \<Rightarrow> world \<Rightarrow> string \<Rightarrow> string \<Rightarrow> int \<Rightarrow> string \<Rightarrow> string \<Rightarrow>
     ((exn + result) \<times> event list) option" where
  "generate_image g w image_url style user_id aspect_ratio resolution =
     (case generate_image_try g w image_url style user_id aspect_ratio resolution of
        None \<Rightarrow> None
      | Some (Inr r, evs) \<Rightarrow> Some (Inr r, evs)
      | Some (Inl e, evs) \<Rightarrow>
          if is_exception e then Some (Inr (failure_result w style (str_exn e)), evs)
          else Some (Inl e, evs))"


section \<open>The presentation helpers\<close>

text \<open>
  A button is the dictionary with the keys \<open>text\<close> and \<open>callback_data\<close>; a keyboard is a
  list of rows of buttons. Each helper is a method: its model returns the value of the
  call, the generator as the call leaves it, and the calls it made on the outside.
\<close>

record button =
  btn_text :: string
  callback_data :: string

type_synonym keyboard = "button list list"

definition cancel_text :: string where
  \<comment> \<open>"(cross) Cancel"\<close>
  "cancel_text =
     hx ''E29D8C20D09ED182D0BCD0B5D0BDD0B8D182D18C''"

definition msg_no_description :: string where
  \<comment> \<open>"No description available"\<close>
  "msg_no_description =
     hx ''D09ED0BFD0B8D181D0B0D0BDD0B8D0B520D0BDD0B5D0B4D0BED181D182D183D0BFD0BDD0'' @
       hx ''BE''"

definition cancel_row :: "button list" where
  "cancel_row = [\<lparr>btn_text = cancel_text, callback_data = ''transform_cancel''\<rparr>]"

text \<open>The \<open>for\<close> loop of \<open>get_style_keyboard\<close> (lines 358 to 366), from the items still to
  visit and the current \<open>keyboard\<close> and \<open>row\<close>.\<close>

fun style_rows ::
    "(string \<times> style_config) list \<Rightarrow> keyboard \<Rightarrow> button list \<Rightarrow> keyboard \<times> button list" where
  "style_rows [] keyboard row = (keyboard, row)"
| "style_rows ((style_key, style_info) # rest) keyboard row =
     (let button_data = \<lparr>btn_text = style_name style_info,
                          callback_data = ''transform_style:'' @ style_key\<rparr>;
          row' = row @ [button_data]
      in if length row' = 2 then style_rows rest (keyboard @ [row']) []
         else style_rows rest keyboard row')"

definition get_style_keyboard :: "generator \<Rightarrow> keyboard \<times> generator \<times> event list" where
  "get_style_keyboard g =
     (case style_rows (styles g) [] [] of
        (keyboard, row) \<Rightarrow>
          (let keyboard' = (if row \<noteq> [] then keyboard @ [row] else keyboard)
           in (keyboard' @ [cancel_row], g, [])))"

text \<open>\<open>get_style_info\<close>: \<open>self.styles.get(style)\<close>.\<close>

definition get_style_info ::
    "generator \<Rightarrow> string \<Rightarrow> style_config option \<times> generator \<times> event list" where
  "get_style_info g style = (map_of (styles g) style, g, [])"

definition photoshop_description :: string where
  \<comment> \<open>Photoshop / enhancement: you as you are, in perfect light; for avatars, CVs, profiles\<close>
  "photoshop_description =
     hx ''F09FA48D20D0A4D0BED182D0BED188D0BED0BF202F20D0A3D0BBD183D187D188D0B5D0BD'' @
       hx ''D0B8D0B50A0AD0A2D18B20E2809420D0BAD0B0D0BA20D0B5D181D182D18C2C20D0BDD0BE'' @
       hx ''20D0B220D0B8D0B4D0B5D0B0D0BBD18CD0BDD0BED0BC20D181D0B2D0B5D182D0B52E0AD0'' @
       hx ''A4D0BED0BD20D0B2D18BD187D0B8D189D0B5D0BD2C20D0BAD0BED0B6D0B020D0B2D18BD0'' @
       hx ''B3D0BBD18FD0B4D0B8D18220D181D0B2D0B5D0B6D0BE2C20D186D0B2D0B5D182D0B020E2'' @
       hx ''809420D0B5D181D182D0B5D181D182D0B2D0B5D0BDD0BDD18BD0B52E0AD09AD0B0D0BA20'' @
       hx ''D0B1D183D0B4D182D0BE20D182D0B2D0BED0B520D184D0BED182D0BE20D180D0B5D182D1'' @
       hx ''83D188D0B8D180D0BED0B2D0B0D0BB20D0BFD180D0BED184D0B82E20D091D0B5D0B720D0'' @
       hx ''BBD0B8D188D0BDD0B8D18520D184D0B8D0BBD18CD182D180D0BED0B22E0A0AF09F938C20'' @
       hx ''D09FD0BED0B4D185D0BED0B4D0B8D18220D0B4D0BBD18F3A20D0B0D0B2D0B0D182D0B0D1'' @
       hx ''80D0BAD0B82C20D180D0B5D0B7D18ED0BCD0B52C20D0BFD180D0BED184D0B8D0BBD18F2E'' @
       hx ''0AE29AA1'' @ '' PixelPie AI '' @
       hx ''D183D0BBD183D187D188D0B8D18220D0BAD0B0D187D0B5D181D182D0B2D0BE20D18120D0'' @
       hx ''BFD0BED0BCD0BED189D18CD18E20D0BDD0B5D0B9D180D0BED181D0B5D182D0B8''"

definition art_description :: string where
  \<comment> \<open>AI Art / illustration: the photo becomes art; for creative work, stories, aesthetic content\<close>
  "art_description =
     hx ''F09F8EA8'' @ '' AI Art / '' @
       hx ''D098D0BBD0BBD18ED181D182D180D0B0D186D0B8D18F0A0AD0A4D0BED182D0BE20D0BFD1'' @
       hx ''80D0B5D0B2D180D0B0D189D0B0D0B5D182D181D18F20D0B220D0B0D180D1822E0AD09BD0'' @
       hx ''B8D0BDD0B8D0B82C20D181D0B2D0B5D1822C20D0BFD0B0D181D182D0B5D0BBD18C20D0B8'' @
       hx ''D0BBD0B820D181D182D0B8D0BBD18C'' @ '' digital-'' @
       hx ''D0B8D0BBD0BBD18ED181D182D180D0B0D186D0B8D0B920E2809420D0B820D182D18B20D0'' @
       hx ''B2D18BD0B3D0BBD18FD0B4D0B8D188D18C20D0BAD0B0D0BA20D0BFD0B5D180D181D0BED0'' @
       hx ''BDD0B0D0B620D0BAD0BDD0B8D0B3D0B820D0B8D0BBD0B8'' @ '' Pinterest-'' @
       hx ''D0BFD0BED181D182D0B5D180D0B02E0A0AF09F938C20D09FD0BED0B4D185D0BED0B4D0B8'' @
       hx ''D18220D0B4D0BBD18F3A20D182D0B2D0BED180D187D0B5D181D182D0B2D0B02C20D181D1'' @
       hx ''82D0BED180D0B8D1812C20D18DD181D182D0B5D182D0B8D187D0BDD0BED0B3D0BE20D0BA'' @
       hx ''D0BED0BDD182D0B5D0BDD182D0B02E0AF09F8EA8'' @ '' PixelPie AI '' @
       hx ''D181D0BED0B7D0B4D0B0D181D18220D183D0BDD0B8D0BAD0B0D0BBD18CD0BDD183D18E20'' @
       hx ''D0B8D0BBD0BBD18ED181D182D180D0B0D186D0B8D18E''"

definition cinema_description :: string where
  \<comment> \<open>Cinema / cinematic: you in a frame as if from a film; for striking looks and posts with a mood\<close>
  "cinema_description =
     hx ''F09F8EAC20D09AD0B8D0BDD0BE'' @ '' / Cinematic'' @
       hx ''0A0AD0A2D18B20D0B220D0BAD0B0D0B4D180D0B520E2809420D0B1D183D0B4D182D0BE20'' @
       hx ''D18DD182D0BE20D181D186D0B5D0BDD0B020D0B8D0B720D184D0B8D0BBD18CD0BCD0B02E'' @
       hx ''0AD090D182D0BCD0BED181D184D0B5D180D0BDD18BD0B520D186D0B2D0B5D182D0B02C20'' @
       hx ''D0BDD0B0D0BFD180D0B0D0B2D0BBD0B5D0BDD0BDD18BD0B920D181D0B2D0B5D18220D0B8'' @
       hx ''20D0BDD0B5D0BCD0BDD0BED0B3D0BE20D0B4D180D0B0D0BCD18B2E0A0AF09F938C20D09F'' @
       hx ''D0BED0B4D185D0BED0B4D0B8D18220D0B4D0BBD18F3A20D18FD180D0BAD0B8D18520D0BE'' @
       hx ''D0B1D180D0B0D0B7D0BED0B22C20D0B2D0B0D1832DD18DD184D184D0B5D0BAD182D0B02C'' @
       hx ''20D0BFD0BED181D182D0BED0B220D18120D0BDD0B0D181D182D180D0BED0B5D0BDD0B8D0'' @
       hx ''B5D0BC2E0AF09F8EA5'' @ '' PixelPie AI '' @
       hx ''D0BFD180D0B8D0BCD0B5D0BDD0B8D18220D0BAD0B8D0BDD0B5D0BCD0B0D182D0BED0B3D1'' @
       hx ''80D0B0D184D0B8D187D0B5D181D0BAD183D18E20D0BED0B1D180D0B0D0B1D0BED182D0BA'' @
       hx ''D183''"

definition portrait_description :: string where
  \<comment> \<open>Portrait / psychological: a deep look, soft shadows, focus on the face; for calm avatars, presentations\<close>
  "portrait_description =
     hx ''F09FA7A020D09FD0BED180D182D180D0B5D182202F20D09FD181D0B8D185D0BED0BBD0BE'' @
       hx ''D0B3D0B8D187D0B5D181D0BAD0B8D0B90A0AD093D0BBD183D0B1D0BED0BAD0B8D0B920D0'' @
       hx ''B2D0B7D0B3D0BBD18FD0B42C20D0BCD18FD0B3D0BAD0B8D0B520D182D0B5D0BDD0B82C20'' @
       hx ''D184D0BED0BAD183D18120D0BDD0B020D0BBD0B8D186D0B52E0AD0ADD184D184D0B5D0BA'' @
       hx ''D1822C20D0BAD0B0D0BA20D0B1D183D0B4D182D0BE20D182D18B20D181D0BDD18FD18220'' @
       hx ''D184D0BED182D0BED0B3D180D0B0D184D0BED0BC2C20D0BAD0BED182D0BED180D18BD0B9'' @
       hx ''20D183D0BCD0B5D0B5D18220D0BFD0BED0BAD0B0D0B7D0B0D182D18C20D185D0B0D180D0'' @
       hx ''B0D0BAD182D0B5D1802E0A0AF09F938C20D09FD0BED0B4D185D0BED0B4D0B8D18220D0B4'' @
       hx ''D0BBD18F3A20D181D0BFD0BED0BAD0BED0B9D0BDD18BD18520D0B0D0B2D0B0D182D0B0D1'' @
       hx ''80D0BED0BA2C20D0BFD180D0B5D0B7D0B5D0BDD182D0B0D186D0B8D0B92C20D0BAD0BED0'' @
       hx ''BDD182D0B5D0BDD182D0B020D18120D0B4D183D188D0BED0B92E0AF09F93B8'' @
       '' PixelPie AI '' @
       hx ''D181D0BED0B7D0B4D0B0D181D18220D0BFD180D0BED184D0B5D181D181D0B8D0BED0BDD0'' @
       hx ''B0D0BBD18CD0BDD18BD0B920D0BFD0BED180D182D180D0B5D182''"

definition fantasy_description :: string where
  \<comment> \<open>Science fiction / neon-cyber: you in another time and universe; for avatars, stories, bright posts\<close>
  "fantasy_description =
     hx ''E29AA120D0A4D0B0D0BDD182D0B0D181D182D0B8D0BAD0B0'' @ '' / Neon-Cyber'' @
       hx ''0A0AD0A2D18B20D0B220D0B4D180D183D0B3D0BED0BC20D0B2D180D0B5D0BCD0B5D0BDD0'' @
       hx ''B82C20D0B220D0B4D180D183D0B3D0BED0B920D0B2D181D0B5D0BBD0B5D0BDD0BDD0BED0'' @
       hx ''B92E0AD093D0BBD0B8D182D187D0B82C20D0BDD0B5D0BED0BD2C20D0B4D180D0B0D0BCD0'' @
       hx ''B0D182D0B8D187D0BDD18BD0B920D181D0B2D0B5D18220E2809420D0B2D0B8D0B7D183D0'' @
       hx ''B0D0BBD18CD0BDD18BD0B920D18DD0BAD188D0BD20D0BFD180D18FD0BCD0BE20D0B8D0B7'' @
       '' sci-fi '' @
       hx ''D182D180D0B5D0B9D0BBD0B5D180D0B02E0A0AF09F938C20D09FD0BED0B4D185D0BED0B4'' @
       hx ''D0B8D18220D0B4D0BBD18F3A20D0B0D0B2D0B0D182D0B0D180D0BED0BA2C20D181D182D0'' @
       hx ''BED180D0B8D1812C20D18FD180D0BAD0B8D18520D0BFD0BED181D182D0BED0B22E0AF09F'' @
       hx ''9A80'' @ '' PixelPie AI '' @
       hx ''D0BFD0B5D180D0B5D0BDD0B5D181D0B5D18220D182D0B5D0B1D18F20D0B220D0B1D183D0'' @
       hx ''B4D183D189D0B5D0B5''"

definition lego_description :: string where
  \<comment> \<open>LEGO / minifigure: turned into a detailed LEGO minifigure; for fun avatars, gifts, creative content\<close>
  "lego_description =
     hx ''F09FA7B1'' @ '' LEGO / '' @
       hx ''D09CD0B8D0BDD0B8D184D0B8D0B3D183D180D0BAD0B00A0AD09FD180D0B5D0B2D180D0B0'' @
       hx ''D189D0B5D0BDD0B8D0B520D0B220D0B4D0B5D182D0B0D0BBD0B8D0B7D0B8D180D0BED0B2'' @
       hx ''D0B0D0BDD0BDD183D18E'' @ '' LEGO '' @
       hx ''D0BCD0B8D0BDD0B8D184D0B8D0B3D183D180D0BAD1832E0AD0AFD180D0BAD0B8D0B520D1'' @
       hx ''86D0B2D0B5D182D0B02C20D0B1D0BBD0BED187D0BDD18BD0B520D182D0B5D0BAD181D182'' @
       hx ''D183D180D18B2C20D0BAD183D0BBD18CD182D0BED0B2D18BD0B920D181D182D0B8D0BBD1'' @
       hx ''8C20D0BAD0BED0BDD181D182D180D183D0BAD182D0BED180D0B02E0AD09AD0B0D0B6D0B4'' @
       hx ''D0B0D18F20D0B4D0B5D182D0B0D0BBD18C20D0BFD180D0BED180D0B0D0B1D0BED182D0B0'' @
       hx ''D0BDD0B020D0B4D0BE20D0BCD0B5D0BBD18CD187D0B0D0B9D188D0B8D18520D0BAD183D0'' @
       hx ''B1D0B8D0BAD0BED0B2210A0AF09F938C20D09FD0BED0B4D185D0BED0B4D0B8D18220D0B4'' @
       hx ''D0BBD18F3A20D0B2D0B5D181D0B5D0BBD18BD18520D0B0D0B2D0B0D182D0B0D180D0BED0'' @
       hx ''BA2C20D0BFD0BED0B4D0B0D180D0BAD0BED0B22C20D0BAD180D0B5D0B0D182D0B8D0B2D0'' @
       hx ''BDD0BED0B3D0BE20D0BAD0BED0BDD182D0B5D0BDD182D0B02E0AF09FA7B1'' @
       '' PixelPie AI '' @
       hx ''D181D0BED0B7D0B4D0B0D181D18220D182D0B2D0BED18E20D183D0BDD0B8D0BAD0B0D0BB'' @
       hx ''D18CD0BDD183D18E'' @ '' LEGO-'' @ hx ''D0B2D0B5D180D181D0B8D18E''"

definition get_style_description ::
    "generator \<Rightarrow> string \<Rightarrow> string \<times> generator \<times> event list" where
  "get_style_description g style =
     (let descriptions = [(''photoshop'', photoshop_description),
                          (''art'', art_description),
                          (''cinema'', cinema_description),
                          (''portrait'', portrait_description),
                          (''fantasy'', fantasy_description),
                          (''lego'', lego_description)]
      in (case map_of descriptions style of
            Some d \<Rightarrow> d
          | None \<Rightarrow> msg_no_description,
          g, []))"

text \<open>The \<open>for\<close> loop of \<open>get_aspect_ratio_keyboard\<close> (lines 456 to 464); iterating a
  \<open>dict\<close> visits its keys.\<close>

fun ratio_rows ::
    "string \<Rightarrow> string list \<Rightarrow> keyboard \<Rightarrow> button list \<Rightarrow> keyboard \<times> button list" where
  "ratio_rows style_key [] keyboard row = (keyboard, row)"
| "ratio_rows style_key (ratio_key # rest) keyboard row =
     (let button_data =
            \<lparr>btn_text = ratio_key,
             callback_data = ''transform_ratio:'' @ style_key @ '':'' @ ratio_key\<rparr>;
          row' = row @ [button_data]
      in if length row' = 3 then ratio_rows style_key rest (keyboard @ [row']) []
         else ratio_rows style_key rest keyboard row')"

definition get_aspect_ratio_keyboard ::
    "generator \<Rightarrow> string \<Rightarrow> keyboard \<times> generator \<times> event list" where
  "get_aspect_ratio_keyboard g style_key =
     (case ratio_rows style_key (map fst (aspect_ratios g)) [] [] of
        (keyboard, row) \<Rightarrow>
          (let keyboard' = (if row \<noteq> [] then keyboard @ [row] else keyboard)
           in (keyboard' @ [cancel_row], g, [])))"

text \<open>The \<open>for\<close> loop of \<open>get_resolution_keyboard\<close> (lines 485 to 490): one row, never
  cut.\<close>

fun resolution_row :: "string \<Rightarrow> string \<Rightarrow> string list \<Rightarrow> button list \<Rightarrow> button list" where
  "resolution_row style_key aspect_ratio [] row = row"
| "resolution_row style_key aspect_ratio (res_key # rest) row =
     (let button_data =
            \<lparr>btn_text = res_key,
             callback_data = ''transform_resolution:'' @ style_key @ '':'' @ aspect_ratio @
                             '':'' @ res_key\<rparr>
      in resolution_row style_key aspect_ratio rest (row @ [button_data]))"

definition get_resolution_keyboard ::
    "generator \<Rightarrow> string \<Rightarrow> string \<Rightarrow> keyboard \<times> generator \<times> event list" where
  "get_resolution_keyboard g style_key aspect_ratio =
     (let row = resolution_row style_key aspect_ratio (map fst (resolutions g)) [];
          keyboard = (if row \<noteq> [] then [row] else [])
      in (keyboard @ [cancel_row], g, []))"

definition aspect_ratio_description :: string where
  \<comment> \<open>"Choose the aspect ratio of your picture!", with a line on each of 9:16, 16:9, 1:1
     and 3:4 / 4:3\<close>
  "aspect_ratio_description =
     hx ''0AF09F939020D092D18BD0B1D0B5D180D0B8D182D0B520D181D0BED0BED182D0BDD0BED1'' @
       hx ''88D0B5D0BDD0B8D0B520D181D182D0BED180D0BED0BD20D0B4D0BBD18F20D0B2D0B0D188'' @
       hx ''D0B5D0B3D0BE20D0B8D0B7D0BED0B1D180D0B0D0B6D0B5D0BDD0B8D18F210A0AD0ADD182'' @
       hx ''D0BE20D0BAD0B0D0BA20D180D0B0D0BCD0BAD0B020D0B4D0BBD18F20D0BAD0B0D180D182'' @
       hx ''D0B8D0BDD18B3A20D0BED0BFD180D0B5D0B4D0B5D0BBD18FD0B5D18220D184D0BED180D0'' @
       hx ''BCD18320D0B8D0B7D0BED0B1D180D0B0D0B6D0B5D0BDD0B8D18F2E0A'' @ ''- 9:16: '' @
       hx ''D092D0B5D180D182D0B8D0BAD0B0D0BBD18CD0BDD18BD0B920D184D0BED180D0BCD0B0D1'' @
       hx ''822C20D0B8D0B4D0B5D0B0D0BBD0B5D0BD20D0B4D0BBD18F20D181D182D0BED180D0B8D1'' @
       hx ''8120D0B820D0BCD0BED0B1D0B8D0BBD18CD0BDD18BD18520D18DD0BAD180D0B0D0BDD0BE'' @
       hx ''D0B220F09F93B10A'' @ ''- 16:9: '' @
       hx ''D093D0BED180D0B8D0B7D0BED0BDD182D0B0D0BBD18CD0BDD18BD0B92C20D0BAD0B0D0BA'' @
       hx ''20D0B2D0B8D0B4D0B5D0BE20D0BDD0B0'' @ '' YouTube '' @
       hx ''D0B8D0BBD0B820D0BAD0B8D0BDD0BED18DD0BAD180D0B0D0BD20F09F8EA50A'' @
       ''- 1:1: '' @
       hx ''D09AD0B2D0B0D0B4D180D0B0D1822C20D0BAD0BBD0B0D181D181D0B8D0BAD0B020D0B4D0'' @
       hx ''BBD18F20D0B0D0B2D0B0D182D0B0D180D0BED0BA20D0B820D0BFD0BED181D182D0BED0B2'' @
       hx ''20D0B220D181D0BED186D181D0B5D182D18FD18520F09F94B20A'' @ ''- 3:4 / 4:3: '' @
       hx ''D09FD0BED180D182D180D0B5D182D0BDD18BD0B920D0B8D0BBD0B820D0B0D0BBD18CD0B1'' @
       hx ''D0BED0BCD0BDD18BD0B92C20D183D0BDD0B8D0B2D0B5D180D181D0B0D0BBD18CD0BDD18B'' @
       hx ''D0B920D0B4D0BBD18F20D184D0BED182D0BE20F09F93B80A0A'' @ ''PixelPie AI '' @
       hx ''D0BFD0BED0B4D181D182D180D0BED0B8D18220D0B3D0B5D0BDD0B5D180D0B0D186D0B8D1'' @
       hx ''8E20D0BFD0BED0B420D0B2D18BD0B1D180D0B0D0BDD0BDD18BD0B920D184D0BED180D0BC'' @
       hx ''D0B0D18220D0B4D0BBD18F20D0BBD183D187D188D0B5D0B3D0BE20D180D0B5D0B7D183D0'' @
       hx ''BBD18CD182D0B0D182D0B02120E29CA80A''

"

definition get_aspect_ratio_description :: "generator \<Rightarrow> string \<times> generator \<times> event list" where
  "get_aspect_ratio_description g = (aspect_ratio_description, g, [])"

section \<open>Sample worlds\<close>

text \<open>
  A world where every call succeeds: the metadata names the file \<open>f1\<close>, the file is a
  JPEG, the upload is accepted, and the job is seen \<open>processing\<close> twice before it has
  \<open>succeeded\<close>.
\<close>

definition sample_world :: world where
  "sample_world =
     \<lparr>environ = Map.empty,
      http_post = (\<lambda>url hdrs data.
        Inr \<lparr>status = 201, headers = [],
             json_body = Inr (JObj [(''url'', JStr ''https://api.replicate.com/v1/files/f2'')]),
             text_body = Inr []\<rparr>),
      http_get = (\<lambda>url hdrs.
        Inr \<lparr>status = 200, headers = [(''Content-Type'', ''application/json'')],
             json_body = Inr (JObj [(''id'', JStr ''f1'')]),
             text_body = Inr []\<rparr>),
      files_get = (\<lambda>file_id. Inr (Bytes [0xFF, 0xD8])),
      magic_from_buffer = (\<lambda>buffer. Inr ''image/jpeg''),
      image_open = (\<lambda>data. Inr (Image ''RGBA'' data)),
      convert_save = (\<lambda>img mode fmt quality. Inr [0xFF]),
      predictions_create = (\<lambda>m inp.
        Inr \<lparr>pid = ''p1'', pstatus = ''starting'', poutput = OutStr [], perror = None\<rparr>),
      predictions_get = (\<lambda>n i.
        Inr \<lparr>pid = ''p1'', pstatus = (if n < 2 then ''processing'' else ''succeeded''),
             poutput = OutStr ''https://replicate.delivery/out.jpg'', perror = None\<rparr>),
      sleep = (\<lambda>n seconds. None),
      now_isoformat = ''2025-01-01T00:00:00''\<rparr>"



text \<open>A job that was canceled.\<close>

definition canceled_prediction :: prediction where
  "canceled_prediction =
     \<lparr>pid = ''p1'', pstatus = ''canceled'', poutput = OutStr [], perror = None\<rparr>"

text \<open>The sample world, but the metadata URL answers 404.\<close>

definition not_found_world :: world where
  "not_found_world =
     sample_world\<lparr>http_get := (\<lambda>url hdrs.
        Inr \<lparr>status = 404, headers = [(''Content-Type'', ''application/json'')],
             json_body = Inr (JObj [(''detail'', JStr ''Not found'')]),
             text_body = Inr ''Not found''\<rparr>)\<rparr>"

text \<open>The sample world, but the file is recognised as plain text.\<close>

definition text_file_world :: world where
  "text_file_world = sample_world\<lparr>magic_from_buffer := (\<lambda>buffer. Inr ''text/plain'')\<rparr>"

section \<open>Properties of \<open>upload_image_to_replicate\<close>\<close>

lemma py_lookup_iff:
  "(case py_contains k d of
      Inl e \<Rightarrow> Inl e
    | Inr True \<Rightarrow> py_getitem d k
    | Inr False \<Rightarrow> Inl x) = Inr v
   \<longleftrightarrow> (\<exists>kvs. d = JObj kvs \<and> map_of kvs k = Some v)"
  by (cases d) (force split: option.splits bool.splits if_splits dest!: map_of_SomeD)+

text \<open>
  Claim C3. The upload returns \<open>u\<close> exactly when the token is set, the service answers
  the POST with status 201, and the body parses to a JSON object whose \<open>url\<close> is \<open>u\<close>. In
  every other case it raises: where no \<open>u\<close> meets these conditions, the result is an
  exception.
\<close>

theorem upload_returns_url_iff:
  "(fst (upload_image_to_replicate w image_bytes filename) = Inr u \<longleftrightarrow>
      (\<exists>token response kvs.
         environ w ''REPLICATE_API_TOKEN'' = Some token \<and>
         http_post w ''https://api.replicate.com/v1/files''
           [(''Authorization'', ''Token '' @ token),
            (''Content-Type'', ''application/octet-stream''),
            (''X-File-Name'', filename)] image_bytes = Inr response \<and>
         status response = 201 \<and>
         json_body response = Inr (JObj kvs) \<and>
         map_of kvs ''url'' = Some u)) \<and>
   ((\<nexists>token response kvs v.
         environ w ''REPLICATE_API_TOKEN'' = Some token \<and>
         http_post w ''https://api.replicate.com/v1/files''
           [(''Authorization'', ''Token '' @ token),
            (''Content-Type'', ''application/octet-stream''),
            (''X-File-Name'', filename)] image_bytes = Inr response \<and>
         status response = 201 \<and>
         json_body response = Inr (JObj kvs) \<and>
         map_of kvs ''url'' = Some v) \<longrightarrow>
      (\<exists>e. fst (upload_image_to_replicate w image_bytes filename) = Inl e))"
proof -
  have iff: "fst (upload_image_to_replicate w image_bytes filename) = Inr v \<longleftrightarrow>
      (\<exists>token response kvs.
         environ w ''REPLICATE_API_TOKEN'' = Some token \<and>
         http_post w ''https://api.replicate.com/v1/files''
           [(''Authorization'', ''Token '' @ token),
            (''Content-Type'', ''application/octet-stream''),
            (''X-File-Name'', filename)] image_bytes = Inr response \<and>
         status response = 201 \<and>
         json_body response = Inr (JObj kvs) \<and>
         map_of kvs ''url'' = Some v)" for v
    unfolding upload_image_to_replicate_def Let_def
    by (auto split: option.splits sum.splits simp: py_lookup_iff)
  show ?thesis
  proof (intro conjI impI)
    show "fst (upload_image_to_replicate w image_bytes filename) = Inr u \<longleftrightarrow>
      (\<exists>token response kvs.
         environ w ''REPLICATE_API_TOKEN'' = Some token \<and>
         http_post w ''https://api.replicate.com/v1/files''
           [(''Authorization'', ''Token '' @ token),
            (''Content-Type'', ''application/octet-stream''),
            (''X-File-Name'', filename)] image_bytes = Inr response \<and>
         status response = 201 \<and>
         json_body response = Inr (JObj kvs) \<and>
         map_of kvs ''url'' = Some u)"
      by (rule iff)
  next
    assume none: "\<nexists>token response kvs v.
         environ w ''REPLICATE_API_TOKEN'' = Some token \<and>
         http_post w ''https://api.replicate.com/v1/files''
           [(''Authorization'', ''Token '' @ token),
            (''Content-Type'', ''application/octet-stream''),
            (''X-File-Name'', filename)] image_bytes = Inr response \<and>
         status response = 201 \<and>
         json_body response = Inr (JObj kvs) \<and>
         map_of kvs ''url'' = Some v"
    show "\<exists>e. fst (upload_image_to_replicate w image_bytes filename) = Inl e"
    proof (cases "fst (upload_image_to_replicate w image_bytes filename)")
      case (Inl e)
      then show ?thesis by blast
    next
      case (Inr v)
      with iff [of v] none show ?thesis by blast
    qed
  qed
qed

theorem upload_returns_url_iff_witness:
  "fst (upload_image_to_replicate (snd (init ''k'' sample_world)) [0xFF] ''processed.jpg'')
     = Inr (JStr ''https://api.replicate.com/v1/files/f2'') \<and>
   (\<exists>e. fst (upload_image_to_replicate sample_world [0xFF] ''processed.jpg'') = Inl e)"
proof
  show "fst (upload_image_to_replicate (snd (init ''k'' sample_world)) [0xFF] ''processed.jpg'')
     = Inr (JStr ''https://api.replicate.com/v1/files/f2'')"
    using upload_returns_url_iff
      [of "snd (init ''k'' sample_world)" "[0xFF]" "''processed.jpg''"
          "JStr ''https://api.replicate.com/v1/files/f2''"]
    by (simp add: init_def sample_world_def)
next
  show "\<exists>e. fst (upload_image_to_replicate sample_world [0xFF] ''processed.jpg'') = Inl e"
    using upload_returns_url_iff [of sample_world "[0xFF]" "''processed.jpg''"]
    by (simp add: sample_world_def)
qed

section \<open>Properties of \<open>download_image\<close>\<close>

lemma py_getitem_Inr_iff:
  "py_getitem d k = Inr v \<longleftrightarrow> (\<exists>kvs. d = JObj kvs \<and> map_of kvs k = Some v)"
  by (cases d) (auto split: option.splits)

lemma py_contains_obj:
  "map_of kvs k = Some v \<Longrightarrow> py_contains k (JObj kvs) = Inr True"
  by (force dest!: map_of_SomeD)

lemma py_lookup_obj:
  "map_of kvs k = Some v \<Longrightarrow>
   (case py_contains k (JObj kvs) of
      Inl e \<Rightarrow> Inl e
    | Inr True \<Rightarrow> py_getitem (JObj kvs) k
    | Inr False \<Rightarrow> Inl x) = Inr v"
  by (simp add: py_contains_obj del: py_contains.simps)

text \<open>
  Claim C4. A download that returns has made two calls in this order: the GET of the
  metadata URL, answered with status 200, a \<open>Content-Type\<close> starting with
  \<open>application/json\<close> and a JSON object with an \<open>id\<close>; then \<open>client.files.get\<close> on that
  \<open>id\<close>, which gave the bytes returned. Where the answer to the GET has another status,
  another \<open>Content-Type\<close>, or no \<open>id\<close>, the download raises, having made the GET only.
  And where the answer is as required, the download does go on: after the GET it calls
  \<open>client.files.get\<close> on the \<open>id\<close> of the answer, and where that gives bytes that \<open>magic\<close>
  takes for an image, it returns these bytes.
\<close>

theorem download_image_two_steps:
  "(download_image w key url = (Inr file_content, evs) \<longrightarrow>
      (\<exists>response kvs file_id.
         http_get w url [(''Authorization'', ''Token '' @ key),
                         (''Accept'', ''application/json'')] = Inr response \<and>
         status response = 200 \<and>
         prefix ''application/json'' (headers_get response ''Content-Type'' []) \<and>
         json_body response = Inr (JObj kvs) \<and>
         map_of kvs ''id'' = Some file_id \<and>
         files_get w file_id = Inr (Bytes file_content) \<and>
         evs = [HttpGet url [(''Authorization'', ''Token '' @ key),
                             (''Accept'', ''application/json'')],
                FilesGet file_id, MagicFromBuffer file_content])) \<and>
   (http_get w url [(''Authorization'', ''Token '' @ key),
                    (''Accept'', ''application/json'')] = Inr response \<and>
    (status response \<noteq> 200 \<or>
     \<not> prefix ''application/json'' (headers_get response ''Content-Type'' []) \<or>
     (\<nexists>kvs v. json_body response = Inr (JObj kvs) \<and> map_of kvs ''id'' = Some v)) \<longrightarrow>
      (\<exists>e. download_image w key url =
             (Inl e, [HttpGet url [(''Authorization'', ''Token '' @ key),
                                   (''Accept'', ''application/json'')]]))) \<and>
   (http_get w url [(''Authorization'', ''Token '' @ key),
                    (''Accept'', ''application/json'')] = Inr good \<and>
    status good = 200 \<and>
    prefix ''application/json'' (headers_get good ''Content-Type'' []) \<and>
    json_body good = Inr (JObj items) \<and>
    map_of items ''id'' = Some fid \<longrightarrow>
      (\<exists>rest. snd (download_image w key url) =
         HttpGet url [(''Authorization'', ''Token '' @ key),
                      (''Accept'', ''application/json'')] # FilesGet fid # rest) \<and>
      (files_get w fid = Inr (Bytes content) \<and>
       magic_from_buffer w content = Inr file_type \<and>
       prefix ''image/'' file_type \<longrightarrow>
         download_image w key url =
           (Inr content,
            [HttpGet url [(''Authorization'', ''Token '' @ key),
                          (''Accept'', ''application/json'')],
             FilesGet fid, MagicFromBuffer content])))"
  unfolding download_image_def Let_def
  apply (intro conjI impI)
  subgoal
    by (auto simp: py_getitem_Inr_iff split: sum.splits pyobj.splits if_splits bool.splits)
  subgoal
    by (auto simp: py_getitem_Inr_iff py_contains_obj
             split: sum.splits pyobj.splits if_splits bool.splits)
  subgoal
    by (auto simp: py_lookup_obj simp del: py_contains.simps py_getitem.simps
             split: sum.splits pyobj.splits if_splits)
  subgoal
    by (auto simp: py_lookup_obj simp del: py_contains.simps py_getitem.simps
             split: sum.splits pyobj.splits if_splits)
  done

theorem download_image_two_steps_witness:
  "download_image sample_world ''k'' ''https://api.replicate.com/v1/files/f1'' =
     (Inr [0xFF, 0xD8],
      [HttpGet ''https://api.replicate.com/v1/files/f1''
         [(''Authorization'', ''Token k''), (''Accept'', ''application/json'')],
       FilesGet (JStr ''f1''), MagicFromBuffer [0xFF, 0xD8]]) \<and>
   (\<exists>response kvs file_id.
      http_get sample_world ''https://api.replicate.com/v1/files/f1''
        [(''Authorization'', ''Token k''), (''Accept'', ''application/json'')] = Inr response \<and>
      status response = 200 \<and>
      prefix ''application/json'' (headers_get response ''Content-Type'' []) \<and>
      json_body response = Inr (JObj kvs) \<and>
      map_of kvs ''id'' = Some file_id \<and>
      files_get sample_world file_id = Inr (Bytes [0xFF, 0xD8])) \<and>
   (\<exists>e. download_image not_found_world ''k'' ''https://api.replicate.com/v1/files/f1'' =
      (Inl e, [HttpGet ''https://api.replicate.com/v1/files/f1''
                 [(''Authorization'', ''Token k''), (''Accept'', ''application/json'')]]))"
proof (intro conjI)
  show run: "download_image sample_world ''k'' ''https://api.replicate.com/v1/files/f1'' =
      (Inr [0xFF, 0xD8],
       [HttpGet ''https://api.replicate.com/v1/files/f1''
          [(''Authorization'', ''Token k''), (''Accept'', ''application/json'')],
        FilesGet (JStr ''f1''), MagicFromBuffer [0xFF, 0xD8]])"
    using download_image_two_steps
      [where w = sample_world and key = "''k''"
         and url = "''https://api.replicate.com/v1/files/f1''"
         and good = "\<lparr>status = 200, headers = [(''Content-Type'', ''application/json'')],
                        json_body = Inr (JObj [(''id'', JStr ''f1'')]), text_body = Inr []\<rparr>"
         and items = "[(''id'', JStr ''f1'')]" and fid = "JStr ''f1''"
         and content = "[0xFF, 0xD8]" and file_type = "''image/jpeg''",
       THEN conjunct2, THEN conjunct2]
    by (simp add: sample_world_def headers_get_def)
  from download_image_two_steps
         [where w = sample_world and key = "''k''"
            and url = "''https://api.replicate.com/v1/files/f1''"
            and file_content = "[0xFF, 0xD8]",
          THEN conjunct1, rule_format, OF run]
  show "\<exists>response kvs file_id.
      http_get sample_world ''https://api.replicate.com/v1/files/f1''
        [(''Authorization'', ''Token k''), (''Accept'', ''application/json'')] = Inr response \<and>
      status response = 200 \<and>
      prefix ''application/json'' (headers_get response ''Content-Type'' []) \<and>
      json_body response = Inr (JObj kvs) \<and>
      map_of kvs ''id'' = Some file_id \<and>
      files_get sample_world file_id = Inr (Bytes [0xFF, 0xD8])"
    by auto
  show "\<exists>e. download_image not_found_world ''k'' ''https://api.replicate.com/v1/files/f1'' =
      (Inl e, [HttpGet ''https://api.replicate.com/v1/files/f1''
                 [(''Authorization'', ''Token k''), (''Accept'', ''application/json'')]])"
    using download_image_two_steps
      [where w = not_found_world and key = "''k''"
         and url = "''https://api.replicate.com/v1/files/f1''"
         and response =
           "\<lparr>status = 404, headers = [(''Content-Type'', ''application/json'')],
              json_body = Inr (JObj [(''detail'', JStr ''Not found'')]),
              text_body = Inr ''Not found''\<rparr>",
       THEN conjunct2, THEN conjunct1]
    by (simp add: not_found_world_def sample_world_def)
qed

text \<open>
  Claim C5. What a download returns is \<open>bytes\<close> whose type, as \<open>magic\<close> detects it, starts
  with \<open>image/\<close>. Where the content fetched for the file's \<open>id\<close> is not \<open>bytes\<close>, or its
  detected type does not start with \<open>image/\<close>, the download raises.
\<close>

theorem download_image_is_image:
  "(download_image w key url = (Inr file_content, evs) \<longrightarrow>
      (\<exists>file_type. magic_from_buffer w file_content = Inr file_type \<and>
                   prefix ''image/'' file_type)) \<and>
   (http_get w url [(''Authorization'', ''Token '' @ key),
                    (''Accept'', ''application/json'')] = Inr response \<and>
    status response = 200 \<and>
    prefix ''application/json'' (headers_get response ''Content-Type'' []) \<and>
    json_body response = Inr (JObj kvs) \<and>
    map_of kvs ''id'' = Some file_id \<and>
    files_get w file_id = Inr content \<and>
    (\<nexists>bs file_type. content = Bytes bs \<and> magic_from_buffer w bs = Inr file_type \<and>
                       prefix ''image/'' file_type) \<longrightarrow>
      (\<exists>e evs'. download_image w key url = (Inl e, evs')))"
  unfolding download_image_def Let_def
  apply (intro conjI impI)
  subgoal
    by (auto split: sum.splits pyobj.splits if_splits bool.splits)
  subgoal
    by (auto simp: py_contains_obj split: sum.splits pyobj.splits if_splits bool.splits option.splits)
  done

theorem download_image_is_image_witness:
  "(\<exists>file_type. magic_from_buffer sample_world [0xFF, 0xD8] = Inr file_type \<and>
                 prefix ''image/'' file_type) \<and>
   (\<exists>e evs'. download_image text_file_world ''k'' ''https://api.replicate.com/v1/files/f1'' =
      (Inl e, evs'))"
proof
  have run: "download_image sample_world ''k'' ''https://api.replicate.com/v1/files/f1'' =
      (Inr [0xFF, 0xD8],
       [HttpGet ''https://api.replicate.com/v1/files/f1''
          [(''Authorization'', ''Token k''), (''Accept'', ''application/json'')],
        FilesGet (JStr ''f1''), MagicFromBuffer [0xFF, 0xD8]])"
    by (simp add: download_image_def sample_world_def headers_get_def)
  from download_image_is_image
         [of sample_world "''k''" "''https://api.replicate.com/v1/files/f1''"
             "[0xFF, 0xD8]", THEN conjunct1, rule_format, OF run]
  show "\<exists>file_type. magic_from_buffer sample_world [0xFF, 0xD8] = Inr file_type \<and>
                 prefix ''image/'' file_type" .
next
  show "\<exists>e evs'. download_image text_file_world ''k'' ''https://api.replicate.com/v1/files/f1'' =
      (Inl e, evs')"
    using download_image_is_image
      [of text_file_world "''k''" "''https://api.replicate.com/v1/files/f1''" _ _
          "\<lparr>status = 200, headers = [(''Content-Type'', ''application/json'')],
             json_body = Inr (JObj [(''id'', JStr ''f1'')]), text_body = Inr []\<rparr>"
          "[(''id'', JStr ''f1'')]" "JStr ''f1''" "Bytes [0xFF, 0xD8]"]
    by (simp add: text_file_world_def sample_world_def headers_get_def)
qed

section \<open>Properties of the polling loop\<close>

lemma poll_events_simps:
  "poll_events [] = []"
  "poll_events (i # ids) = Sleep 2 # PredictionsGet i # poll_events ids"
  by (simp_all add: poll_events_def)

lemma poll_loop_Some:
  assumes "poll_loop w n prediction evs = Some y"
  shows "(\<forall>prediction'. fst y = Inr prediction' \<longrightarrow>
            pstatus prediction' \<in> {''succeeded'', ''failed'', ''canceled''} \<and>
            (\<exists>ids. snd y = evs @ poll_events ids)) \<and>
         (\<forall>e. fst y = Inl e \<longrightarrow>
            (\<exists>m. sleep w m 2 = Some e) \<or> (\<exists>m i. predictions_get w m i = Inl e))"
proof (rule poll_loop.raw_induct
    [where P = "\<lambda>w n prediction evs y.
       (\<forall>prediction'. fst y = Inr prediction' \<longrightarrow>
          pstatus prediction' \<in> {''succeeded'', ''failed'', ''canceled''} \<and>
          (\<exists>ids. snd y = evs @ poll_events ids)) \<and>
       (\<forall>e. fst y = Inl e \<longrightarrow>
          (\<exists>m. sleep w m 2 = Some e) \<or> (\<exists>m i. predictions_get w m i = Inl e))",
     OF _ assms],
    goal_cases)
  case (1 poll_loop' w n prediction evs y)
  show ?case
  proof (cases "pstatus prediction \<in> set [''succeeded'', ''failed'', ''canceled'']")
    case True
    with 1(2) have "y = (Inr prediction, evs)" by (simp split: if_splits)
    with True show ?thesis by (auto intro: exI [of _ "[]"] simp: poll_events_simps)
  next
    case False
    show ?thesis
    proof (cases "sleep w n 2")
      case (Some e)
      with False 1(2) have "y = (Inl e, evs @ [Sleep 2])"
        by (simp split: if_splits)
      with Some show ?thesis by auto
    next
      case None
      show ?thesis
      proof (cases "predictions_get w n (pid prediction)")
        case (Inl e)
        with False None 1(2)
        have "y = (Inl e, evs @ [Sleep 2, PredictionsGet (pid prediction)])"
          by (simp split: if_splits)
        with Inl show ?thesis by auto
      next
        case (Inr fetched)
        with False None 1(2)
        have "poll_loop' w (Suc n) fetched
                (evs @ [Sleep 2, PredictionsGet (pid prediction)]) = Some y"
          by (simp split: if_splits)
        from 1(1) [OF this] have
          ok: "\<forall>prediction'. fst y = Inr prediction' \<longrightarrow>
              pstatus prediction' \<in> {''succeeded'', ''failed'', ''canceled''} \<and>
              (\<exists>ids. snd y =
                 (evs @ [Sleep 2, PredictionsGet (pid prediction)]) @ poll_events ids)"
          and raised: "\<forall>e. fst y = Inl e \<longrightarrow>
              (\<exists>m. sleep w m 2 = Some e) \<or> (\<exists>m i. predictions_get w m i = Inl e)"
          by blast+
        have "\<exists>ids'. snd y = evs @ poll_events ids'"
          if "snd y = (evs @ [Sleep 2, PredictionsGet (pid prediction)]) @ poll_events ids"
          for ids
        proof -
          from that have "snd y = evs @ poll_events (pid prediction # ids)"
            by (simp add: poll_events_simps)
          then show ?thesis ..
        qed
        with ok raised show ?thesis by blast
      qed
    qed
  qed
qed

lemma poll_loop_extends:
  assumes "poll_loop w n prediction evs = Some y"
  shows "\<exists>more. snd y = evs @ more"
proof (rule poll_loop.raw_induct
    [where P = "\<lambda>w n prediction evs y. \<exists>more. snd y = evs @ more", OF _ assms],
    goal_cases)
  case (1 poll_loop' w n prediction evs y)
  show ?case
  proof (cases "pstatus prediction \<in> set [''succeeded'', ''failed'', ''canceled'']")
    case True
    with 1(2) have "y = (Inr prediction, evs)" by (simp split: if_splits)
    then show ?thesis by simp
  next
    case False
    show ?thesis
    proof (cases "sleep w n 2")
      case (Some e)
      with False 1(2) have "y = (Inl e, evs @ [Sleep 2])"
        by (simp split: if_splits)
      then show ?thesis by simp
    next
      case None
      show ?thesis
      proof (cases "predictions_get w n (pid prediction)")
        case (Inl e)
        with False None 1(2)
        have "y = (Inl e, evs @ [Sleep 2, PredictionsGet (pid prediction)])"
          by (simp split: if_splits)
        then show ?thesis by simp
      next
        case (Inr fetched)
        with False None 1(2)
        have "poll_loop' w (Suc n) fetched
                (evs @ [Sleep 2, PredictionsGet (pid prediction)]) = Some y"
          by (simp split: if_splits)
        from 1(1) [OF this] obtain more where
          "snd y = (evs @ [Sleep 2, PredictionsGet (pid prediction)]) @ more" ..
        then have "snd y = evs @ ([Sleep 2, PredictionsGet (pid prediction)] @ more)"
          by simp
        then show ?thesis ..
      qed
    qed
  qed
qed




text \<open>
  Claim C2, as the code has it. The loop ends normally only with a prediction whose status
  is \<open>succeeded\<close>, \<open>failed\<close> or \<open>canceled\<close>, and then it has slept and fetched once for each
  prediction it saw before. While the status is none of the three it goes on: it sleeps,
  fetches the prediction again, and ends early only where the sleep or that fetch raises.
\<close>

theorem poll_loop_ends_at_terminal_status:
  "(poll_loop w n prediction evs = Some (Inr prediction', evs') \<longrightarrow>
      pstatus prediction' \<in> {''succeeded'', ''failed'', ''canceled''} \<and>
      (\<exists>ids. evs' = evs @ poll_events ids)) \<and>
   (pstatus prediction \<notin> {''succeeded'', ''failed'', ''canceled''} \<longrightarrow>
      poll_loop w n prediction evs =
        (case sleep w n 2 of
           Some e \<Rightarrow> Some (Inl e, evs @ [Sleep 2])
         | None \<Rightarrow>
        (case predictions_get w n (pid prediction) of
           Inl e \<Rightarrow> Some (Inl e, evs @ [Sleep 2, PredictionsGet (pid prediction)])
         | Inr fetched \<Rightarrow>
             poll_loop w (Suc n) fetched
               (evs @ [Sleep 2, PredictionsGet (pid prediction)]))))"
proof (intro conjI impI)
  assume "poll_loop w n prediction evs = Some (Inr prediction', evs')"
  from poll_loop_Some [OF this]
  show "\<exists>ids. evs' = evs @ poll_events ids" by simp
next
  assume "poll_loop w n prediction evs = Some (Inr prediction', evs')"
  from poll_loop_Some [OF this]
  show "pstatus prediction' \<in> {''succeeded'', ''failed'', ''canceled''}" by simp
next
  assume "pstatus prediction \<notin> {''succeeded'', ''failed'', ''canceled''}"
  then show "poll_loop w n prediction evs =
        (case sleep w n 2 of
           Some e \<Rightarrow> Some (Inl e, evs @ [Sleep 2])
         | None \<Rightarrow>
        (case predictions_get w n (pid prediction) of
           Inl e \<Rightarrow> Some (Inl e, evs @ [Sleep 2, PredictionsGet (pid prediction)])
         | Inr fetched \<Rightarrow>
             poll_loop w (Suc n) fetched
               (evs @ [Sleep 2, PredictionsGet (pid prediction)])))"
    by (subst poll_loop.simps) simp
qed

lemma sample_poll_run:
  "poll_loop sample_world 0
     \<lparr>pid = ''p1'', pstatus = ''starting'', poutput = OutStr [], perror = None\<rparr> [] =
   Some (Inr \<lparr>pid = ''p1'', pstatus = ''succeeded'',
               poutput = OutStr ''https://replicate.delivery/out.jpg'', perror = None\<rparr>,
         [Sleep 2, PredictionsGet ''p1'', Sleep 2, PredictionsGet ''p1'',
          Sleep 2, PredictionsGet ''p1''])"
  by (simp add: poll_loop.simps sample_world_def)

theorem poll_loop_ends_at_terminal_status_witness:
  "''succeeded'' \<in> {''succeeded'', ''failed'', ''canceled''} \<and>
   (\<exists>ids. [Sleep 2, PredictionsGet ''p1'', Sleep 2, PredictionsGet ''p1'',
           Sleep 2, PredictionsGet ''p1''] = [] @ poll_events ids) \<and>
   poll_loop sample_world 0
     \<lparr>pid = ''p1'', pstatus = ''starting'', poutput = OutStr [], perror = None\<rparr> [] =
   poll_loop sample_world 1
     \<lparr>pid = ''p1'', pstatus = ''processing'',
      poutput = OutStr ''https://replicate.delivery/out.jpg'', perror = None\<rparr>
     [Sleep 2, PredictionsGet ''p1'']"
proof -
  note thm1 = poll_loop_ends_at_terminal_status
    [of sample_world 0
        "\<lparr>pid = ''p1'', pstatus = ''starting'', poutput = OutStr [], perror = None\<rparr>" "[]"
        "\<lparr>pid = ''p1'', pstatus = ''succeeded'',
          poutput = OutStr ''https://replicate.delivery/out.jpg'', perror = None\<rparr>"
        "[Sleep 2, PredictionsGet ''p1'', Sleep 2, PredictionsGet ''p1'',
          Sleep 2, PredictionsGet ''p1'']"]
  from thm1 [THEN conjunct1, rule_format, OF sample_poll_run]
  have a: "(\<exists>ids. [Sleep 2, PredictionsGet ''p1'', Sleep 2, PredictionsGet ''p1'',
           Sleep 2, PredictionsGet ''p1''] = [] @ poll_events ids)"
    by simp
  from thm1 [THEN conjunct2]
  have b: "poll_loop sample_world 0
     \<lparr>pid = ''p1'', pstatus = ''starting'', poutput = OutStr [], perror = None\<rparr> [] =
   poll_loop sample_world 1
     \<lparr>pid = ''p1'', pstatus = ''processing'',
      poutput = OutStr ''https://replicate.delivery/out.jpg'', perror = None\<rparr>
     [Sleep 2, PredictionsGet ''p1'']"
    by (simp add: sample_world_def)
  from a b show ?thesis by simp
qed

text \<open>
  With the two statuses \<open>succeeded\<close> and \<open>failed\<close> alone, claim C2 fails: a prediction that
  is \<open>canceled\<close> leaves the loop at once, without a sleep or a fetch.
\<close>

theorem poll_loop_stops_at_canceled:
  "poll_loop sample_world 0 canceled_prediction [] = Some (Inr canceled_prediction, []) \<and>
   pstatus canceled_prediction \<notin> {''succeeded'', ''failed''}"
  by (simp add: poll_loop.simps canceled_prediction_def)

section \<open>Properties of \<open>generate_image\<close>\<close>




lemma generate_image_submit_invalid:
  assumes "style \<notin> set (map fst (styles g)) \<or>
           (case map_of (aspect_ratio_map g) aspect_ratio of
              Some a \<Rightarrow> a | None \<Rightarrow> aspect_ratio) \<notin> set (map fst (aspect_ratios g)) \<or>
           resolution \<notin> set (map fst (resolutions g))"
  shows "\<exists>msg. generate_image_submit g w image_url style user_id aspect_ratio resolution =
           (Inl (ValueError msg), [])"
  using assms unfolding generate_image_submit_def Let_def
  by auto

lemma generate_image_invalid:
  assumes "style \<notin> set (map fst (styles g)) \<or>
           (case map_of (aspect_ratio_map g) aspect_ratio of
              Some a \<Rightarrow> a | None \<Rightarrow> aspect_ratio) \<notin> set (map fst (aspect_ratios g)) \<or>
           resolution \<notin> set (map fst (resolutions g))"
  shows "\<exists>msg. generate_image g w image_url style user_id aspect_ratio resolution =
           Some (Inr (failure_result w style msg), [])"
proof -
  from generate_image_submit_invalid [OF assms] obtain msg where
    "generate_image_submit g w image_url style user_id aspect_ratio resolution =
       (Inl (ValueError msg), [])" ..
  then have "generate_image g w image_url style user_id aspect_ratio resolution =
           Some (Inr (failure_result w style msg), [])"
    by (simp add: generate_image_def generate_image_try_def)
  then show ?thesis ..
qed

lemma failure_result_keys:
  "map_of (failure_result w style msg) ''success'' = Some (VBool False)"
  "map_of (failure_result w style msg) ''error'' = Some (VStr msg)"
  "map_of (failure_result w style msg) ''style'' = Some (VStr style)"
  "map_of (failure_result w style msg) ''timestamp'' = Some (VStr (now_isoformat w))"
  by (simp_all add: failure_result_def)


lemma generate_image_submit_reaches_create:
  assumes "map_of (styles g) style = Some style_config"
    and "(case map_of (aspect_ratio_map g) aspect_ratio of
            Some a \<Rightarrow> a | None \<Rightarrow> aspect_ratio) \<in> set (map fst (aspect_ratios g))"
    and "resolution \<in> set (map fst (resolutions g))"
    and "download_image w (api_key g) image_url = (Inr image_bytes, dl_evs)"
    and "image_open w image_bytes = Inr img"
    and "convert_save w img ''RGB'' ''JPEG'' 95 = Inr processed_image_bytes"
    and "upload_image_to_replicate w processed_image_bytes ''processed.jpg'' =
           (Inr processed_url, up_evs)"
  shows "snd (generate_image_submit g w image_url style user_id aspect_ratio resolution) =
           dl_evs @ [ImageOpen image_bytes, ConvertSave img ''RGB'' ''JPEG'' 95] @ up_evs @
           [PredictionsCreate (model style_config)
              \<lparr>in_prompt = prompt_template style_config,
               in_aspect_ratio = (case map_of (aspect_ratio_map g) aspect_ratio of
                                    Some a \<Rightarrow> a | None \<Rightarrow> aspect_ratio),
               in_reference_tags = [''person''],
               in_reference_images = [processed_url],
               in_output_resolution = resolution\<rparr>]"
proof -
  from assms(1) have "style \<in> set (map fst (styles g))"
    by (force dest!: map_of_SomeD)
  with assms show ?thesis
    unfolding generate_image_submit_def Let_def
    by (simp split: sum.splits)
qed

lemma generate_image_events_extend:
  assumes "generate_image g w image_url style user_id aspect_ratio resolution = Some (y, evs)"
  shows "\<exists>more. evs =
           snd (generate_image_submit g w image_url style user_id aspect_ratio resolution) @
           more"
proof (cases "generate_image_submit g w image_url style user_id aspect_ratio resolution")
  case (Pair res evs0)
  show ?thesis
  proof (cases res)
    case (Inl e)
    with Pair assms have "evs = evs0"
      by (simp add: generate_image_def generate_image_try_def split: if_splits)
    with Pair show ?thesis by simp
  next
    case (Inr sp)
    obtain style_config prediction0 where sp: "sp = (style_config, prediction0)"
      by (cases sp)
    from Pair Inr sp assms obtain z where
      loop: "poll_loop w 0 prediction0 evs0 = Some z" and z: "snd z = evs"
      by (auto simp: generate_image_def generate_image_try_def
               split: option.splits sum.splits prod.splits if_splits)
    from poll_loop_extends [OF loop] z Pair show ?thesis by simp
  qed
qed

lemma generate_image_same_submit:
  assumes "generate_image_submit g w image_url style user_id a resolution =
           generate_image_submit g w image_url style user_id b resolution"
  shows "generate_image g w image_url style user_id a resolution =
         generate_image g w image_url style user_id b resolution"
  using assms by (simp add: generate_image_def generate_image_try_def)

text \<open>
  Claim C6. The generator that \<open>__init__\<close> builds maps the short forms \<open>9\<close>, \<open>16\<close>, \<open>4\<close>, \<open>3\<close>
  and \<open>1\<close> to \<open>9:16\<close>, \<open>16:9\<close>, \<open>4:3\<close>, \<open>3:4\<close> and \<open>1:1\<close>, and \<open>generate_image\<close> applies this
  mapping: a call with a short form does, in every world, what the call with the long
  form does. Where the aspect ratio, after the mapping, is none of \<open>9:16\<close>, \<open>4:3\<close>, \<open>3:4\<close>,
  \<open>1:1\<close>, \<open>16:9\<close>, the call returns the failure dictionary and has made no call on the
  outside: no job was submitted. Where it is one of them and the style, the resolution,
  the download, the re-encoding and the upload are in order, a call that ends has
  submitted the job, with the mapped aspect ratio in its input.
\<close>

theorem generate_image_checks_aspect_ratio:
  "aspect_ratio_map (fst (init key w0)) =
     [(''9'', ''9:16''), (''16'', ''16:9''), (''4'', ''4:3''), (''3'', ''3:4''), (''1'', ''1:1'')] \<and>
   ((case map_of (aspect_ratio_map (fst (init key w0))) aspect_ratio of
       Some a \<Rightarrow> a
     | None \<Rightarrow> aspect_ratio) \<notin> {''9:16'', ''4:3'', ''3:4'', ''1:1'', ''16:9''} \<longrightarrow>
    (\<exists>r. generate_image (fst (init key w0)) w image_url style user_id aspect_ratio resolution =
           Some (Inr r, []) \<and>
         map_of r ''success'' = Some (VBool False))) \<and>
   generate_image (fst (init key w0)) w image_url style user_id ''9'' resolution =
     generate_image (fst (init key w0)) w image_url style user_id ''9:16'' resolution \<and>
   generate_image (fst (init key w0)) w image_url style user_id ''16'' resolution =
     generate_image (fst (init key w0)) w image_url style user_id ''16:9'' resolution \<and>
   generate_image (fst (init key w0)) w image_url style user_id ''4'' resolution =
     generate_image (fst (init key w0)) w image_url style user_id ''4:3'' resolution \<and>
   generate_image (fst (init key w0)) w image_url style user_id ''3'' resolution =
     generate_image (fst (init key w0)) w image_url style user_id ''3:4'' resolution \<and>
   generate_image (fst (init key w0)) w image_url style user_id ''1'' resolution =
     generate_image (fst (init key w0)) w image_url style user_id ''1:1'' resolution \<and>
   (map_of (styles (fst (init key w0))) style = Some style_config \<and>
    (case map_of (aspect_ratio_map (fst (init key w0))) aspect_ratio of
       Some a \<Rightarrow> a
     | None \<Rightarrow> aspect_ratio) \<in> {''9:16'', ''4:3'', ''3:4'', ''1:1'', ''16:9''} \<and>
    download_image w key image_url = (Inr image_bytes, dl_evs) \<and>
    image_open w image_bytes = Inr img \<and>
    convert_save w img ''RGB'' ''JPEG'' 95 = Inr processed_image_bytes \<and>
    upload_image_to_replicate w processed_image_bytes ''processed.jpg'' =
      (Inr processed_url, up_evs) \<and>
    generate_image (fst (init key w0)) w image_url style user_id aspect_ratio ''720p'' =
      Some (y, evs) \<longrightarrow>
    PredictionsCreate (model style_config)
      \<lparr>in_prompt = prompt_template style_config,
       in_aspect_ratio = (case map_of (aspect_ratio_map (fst (init key w0))) aspect_ratio of
                            Some a \<Rightarrow> a
                          | None \<Rightarrow> aspect_ratio),
       in_reference_tags = [''person''],
       in_reference_images = [processed_url],
       in_output_resolution = ''720p''\<rparr> \<in> set evs)"
proof -
  let ?g = "fst (init key w0)"
  let ?norm = "case map_of (aspect_ratio_map ?g) aspect_ratio of
                 Some a \<Rightarrow> a | None \<Rightarrow> aspect_ratio"
  have table: "aspect_ratio_map ?g =
     [(''9'', ''9:16''), (''16'', ''16:9''), (''4'', ''4:3''), (''3'', ''3:4''), (''1'', ''1:1'')]"
    by (simp add: init_def)
  have accepted: "set (map fst (aspect_ratios ?g)) =
          {''9:16'', ''4:3'', ''3:4'', ''1:1'', ''16:9''}"
    by (simp add: init_def)
  have reject: "\<exists>r. generate_image ?g w image_url style user_id aspect_ratio resolution =
                  Some (Inr r, []) \<and> map_of r ''success'' = Some (VBool False)"
    if bad: "?norm \<notin> {''9:16'', ''4:3'', ''3:4'', ''1:1'', ''16:9''}"
  proof -
    from bad accepted have "?norm \<notin> set (map fst (aspect_ratios ?g))"
      by simp
    then have "\<exists>msg. generate_image ?g w image_url style user_id
                  aspect_ratio resolution = Some (Inr (failure_result w style msg), [])"
      by (intro generate_image_invalid) simp
    then show ?thesis by (auto simp: failure_result_keys)
  qed
  have same: "generate_image ?g w image_url style user_id short resolution =
              generate_image ?g w image_url style user_id long resolution"
    if "map_of (aspect_ratio_map ?g) short = Some long"
      and "map_of (aspect_ratio_map ?g) long = None" for short long
    using that
    by (intro generate_image_same_submit) (simp add: generate_image_submit_def)
  have submitted: "PredictionsCreate (model style_config)
      \<lparr>in_prompt = prompt_template style_config,
       in_aspect_ratio = ?norm,
       in_reference_tags = [''person''],
       in_reference_images = [processed_url],
       in_output_resolution = ''720p''\<rparr> \<in> set evs"
    if style: "map_of (styles ?g) style = Some style_config"
      and good: "?norm \<in> {''9:16'', ''4:3'', ''3:4'', ''1:1'', ''16:9''}"
      and dl: "download_image w key image_url = (Inr image_bytes, dl_evs)"
      and img: "image_open w image_bytes = Inr img"
      and jpg: "convert_save w img ''RGB'' ''JPEG'' 95 = Inr processed_image_bytes"
      and up: "upload_image_to_replicate w processed_image_bytes ''processed.jpg'' =
                 (Inr processed_url, up_evs)"
      and run: "generate_image ?g w image_url style user_id aspect_ratio ''720p'' =
                  Some (y, evs)"
  proof -
    from good accepted have good': "?norm \<in> set (map fst (aspect_ratios ?g))"
      by simp
    have res: "''720p'' \<in> set (map fst (resolutions ?g))"
      by (simp add: init_def)
    have key: "api_key ?g = key"
      by (simp add: init_def)
    from dl key have dl': "download_image w (api_key ?g) image_url = (Inr image_bytes, dl_evs)"
      by simp
    from generate_image_submit_reaches_create [OF style good' res dl' img jpg up]
         generate_image_events_extend [OF run]
    show ?thesis by auto
  qed
  from table reject same [of "''9''" "''9:16''"] same [of "''16''" "''16:9''"]
       same [of "''4''" "''4:3''"] same [of "''3''" "''3:4''"] same [of "''1''" "''1:1''"]
       submitted
  show ?thesis
    by (simp add: init_def)
qed

lemma sample_generate_image_run:
  "generate_image (fst (init ''k'' sample_world)) (snd (init ''k'' sample_world))
     ''https://api.replicate.com/v1/files/f1'' ''art'' 7 ''9'' ''720p'' =
   Some (Inr (success_result (snd (init ''k'' sample_world)) ''art'' art_style
                \<lparr>pid = ''p1'', pstatus = ''succeeded'',
                 poutput = OutStr ''https://replicate.delivery/out.jpg'', perror = None\<rparr>),
         [HttpGet ''https://api.replicate.com/v1/files/f1''
            [(''Authorization'', ''Token k''), (''Accept'', ''application/json'')],
          FilesGet (JStr ''f1''),
          MagicFromBuffer [0xFF, 0xD8],
          ImageOpen [0xFF, 0xD8],
          ConvertSave (Image ''RGBA'' [0xFF, 0xD8]) ''RGB'' ''JPEG'' 95,
          HttpPost ''https://api.replicate.com/v1/files''
            [(''Authorization'', ''Token k''),
             (''Content-Type'', ''application/octet-stream''),
             (''X-File-Name'', ''processed.jpg'')] [0xFF],
          PredictionsCreate (model art_style)
            \<lparr>in_prompt = prompt_template art_style,
             in_aspect_ratio = ''9:16'',
             in_reference_tags = [''person''],
             in_reference_images = [JStr ''https://api.replicate.com/v1/files/f2''],
             in_output_resolution = ''720p''\<rparr>,
          Sleep 2, PredictionsGet ''p1'', Sleep 2, PredictionsGet ''p1'',
          Sleep 2, PredictionsGet ''p1''])"
  by (simp add: generate_image_def generate_image_try_def generate_image_submit_def
        init_def sample_world_def download_image_def upload_image_to_replicate_def
        headers_get_def poll_loop.simps)

theorem generate_image_checks_aspect_ratio_witness:
  "(\<exists>r. generate_image (fst (init ''k'' sample_world)) (snd (init ''k'' sample_world))
          ''https://api.replicate.com/v1/files/f1'' ''art'' 7 ''5:4'' ''720p'' =
            Some (Inr r, []) \<and>
        map_of r ''success'' = Some (VBool False)) \<and>
   generate_image (fst (init ''k'' sample_world)) (snd (init ''k'' sample_world))
     ''https://api.replicate.com/v1/files/f1'' ''art'' 7 ''9'' ''720p'' =
   generate_image (fst (init ''k'' sample_world)) (snd (init ''k'' sample_world))
     ''https://api.replicate.com/v1/files/f1'' ''art'' 7 ''9:16'' ''720p'' \<and>
   PredictionsCreate (model art_style)
     \<lparr>in_prompt = prompt_template art_style,
      in_aspect_ratio = ''9:16'',
      in_reference_tags = [''person''],
      in_reference_images = [JStr ''https://api.replicate.com/v1/files/f2''],
      in_output_resolution = ''720p''\<rparr>
   \<in> set [HttpGet ''https://api.replicate.com/v1/files/f1''
              [(''Authorization'', ''Token k''), (''Accept'', ''application/json'')],
            FilesGet (JStr ''f1''),
            MagicFromBuffer [0xFF, 0xD8],
            ImageOpen [0xFF, 0xD8],
            ConvertSave (Image ''RGBA'' [0xFF, 0xD8]) ''RGB'' ''JPEG'' 95,
            HttpPost ''https://api.replicate.com/v1/files''
              [(''Authorization'', ''Token k''),
               (''Content-Type'', ''application/octet-stream''),
               (''X-File-Name'', ''processed.jpg'')] [0xFF],
            PredictionsCreate (model art_style)
              \<lparr>in_prompt = prompt_template art_style,
               in_aspect_ratio = ''9:16'',
               in_reference_tags = [''person''],
               in_reference_images = [JStr ''https://api.replicate.com/v1/files/f2''],
               in_output_resolution = ''720p''\<rparr>,
            Sleep 2, PredictionsGet ''p1'', Sleep 2, PredictionsGet ''p1'',
            Sleep 2, PredictionsGet ''p1'']"
proof (intro conjI)
  note claim = generate_image_checks_aspect_ratio
    [where key = "''k''" and ?w0.0 = sample_world and w = "snd (init ''k'' sample_world)"
       and image_url = "''https://api.replicate.com/v1/files/f1''" and style = "''art''"
       and user_id = 7 and resolution = "''720p''"]
  show "\<exists>r. generate_image (fst (init ''k'' sample_world)) (snd (init ''k'' sample_world))
          ''https://api.replicate.com/v1/files/f1'' ''art'' 7 ''5:4'' ''720p'' =
            Some (Inr r, []) \<and>
        map_of r ''success'' = Some (VBool False)"
    using claim [where aspect_ratio = "''5:4''", THEN conjunct2, THEN conjunct1]
    by (simp add: init_def)
  show "generate_image (fst (init ''k'' sample_world)) (snd (init ''k'' sample_world))
     ''https://api.replicate.com/v1/files/f1'' ''art'' 7 ''9'' ''720p'' =
   generate_image (fst (init ''k'' sample_world)) (snd (init ''k'' sample_world))
     ''https://api.replicate.com/v1/files/f1'' ''art'' 7 ''9:16'' ''720p''"
    by (rule claim [THEN conjunct2, THEN conjunct2, THEN conjunct1])
  have style: "map_of (styles (fst (init ''k'' sample_world))) ''art'' = Some art_style"
    by (simp add: init_def)
  have mapped: "(case map_of (aspect_ratio_map (fst (init ''k'' sample_world))) ''9'' of
                   Some a \<Rightarrow> a | None \<Rightarrow> ''9'') = ''9:16''"
    by (simp add: init_def)
  have dl: "download_image (snd (init ''k'' sample_world)) ''k''
              ''https://api.replicate.com/v1/files/f1'' =
            (Inr [0xFF, 0xD8],
             [HttpGet ''https://api.replicate.com/v1/files/f1''
                [(''Authorization'', ''Token k''), (''Accept'', ''application/json'')],
              FilesGet (JStr ''f1''), MagicFromBuffer [0xFF, 0xD8]])"
    by (simp add: download_image_def init_def sample_world_def headers_get_def)
  have img: "image_open (snd (init ''k'' sample_world)) [0xFF, 0xD8] =
               Inr (Image ''RGBA'' [0xFF, 0xD8])"
    by (simp add: init_def sample_world_def)
  have jpg: "convert_save (snd (init ''k'' sample_world)) (Image ''RGBA'' [0xFF, 0xD8])
               ''RGB'' ''JPEG'' 95 = Inr [0xFF]"
    by (simp add: init_def sample_world_def)
  have up: "upload_image_to_replicate (snd (init ''k'' sample_world)) [0xFF]
              ''processed.jpg'' =
            (Inr (JStr ''https://api.replicate.com/v1/files/f2''),
             [HttpPost ''https://api.replicate.com/v1/files''
                [(''Authorization'', ''Token k''),
                 (''Content-Type'', ''application/octet-stream''),
                 (''X-File-Name'', ''processed.jpg'')] [0xFF]])"
    by (simp add: upload_image_to_replicate_def init_def sample_world_def)
  from mapped have good: "(case map_of (aspect_ratio_map (fst (init ''k'' sample_world))) ''9'' of
                   Some a \<Rightarrow> a | None \<Rightarrow> ''9'') \<in>
                {''9:16'', ''4:3'', ''3:4'', ''1:1'', ''16:9''}"
    by simp
  from claim [where aspect_ratio = "''9''", THEN conjunct2, THEN conjunct2, THEN conjunct2,
              THEN conjunct2, THEN conjunct2, THEN conjunct2, THEN conjunct2, THEN mp,
              OF conjI [OF style conjI [OF good conjI [OF dl conjI [OF img conjI [OF jpg
                 conjI [OF up sample_generate_image_run]]]]]]]
  show "PredictionsCreate (model art_style)
     \<lparr>in_prompt = prompt_template art_style,
      in_aspect_ratio = ''9:16'',
      in_reference_tags = [''person''],
      in_reference_images = [JStr ''https://api.replicate.com/v1/files/f2''],
      in_output_resolution = ''720p''\<rparr>
   \<in> set [HttpGet ''https://api.replicate.com/v1/files/f1''
              [(''Authorization'', ''Token k''), (''Accept'', ''application/json'')],
            FilesGet (JStr ''f1''),
            MagicFromBuffer [0xFF, 0xD8],
            ImageOpen [0xFF, 0xD8],
            ConvertSave (Image ''RGBA'' [0xFF, 0xD8]) ''RGB'' ''JPEG'' 95,
            HttpPost ''https://api.replicate.com/v1/files''
              [(''Authorization'', ''Token k''),
               (''Content-Type'', ''application/octet-stream''),
               (''X-File-Name'', ''processed.jpg'')] [0xFF],
            PredictionsCreate (model art_style)
              \<lparr>in_prompt = prompt_template art_style,
               in_aspect_ratio = ''9:16'',
               in_reference_tags = [''person''],
               in_reference_images = [JStr ''https://api.replicate.com/v1/files/f2''],
               in_output_resolution = ''720p''\<rparr>,
            Sleep 2, PredictionsGet ''p1'', Sleep 2, PredictionsGet ''p1'',
            Sleep 2, PredictionsGet ''p1'']"
    unfolding mapped .
qed

text \<open>
  Claim C10. The resolutions table of the generator that \<open>__init__\<close> builds has the one
  entry \<open>720p\<close>. For any other resolution the call returns the failure dictionary and has
  made no call on the outside: nothing was downloaded, uploaded or submitted.
\<close>

theorem generate_image_checks_resolution:
  "resolutions (fst (init key w0)) = [(''720p'', ''720p'')] \<and>
   (resolution \<noteq> ''720p'' \<longrightarrow>
    (\<exists>r. generate_image (fst (init key w0)) w image_url style user_id aspect_ratio resolution =
           Some (Inr r, []) \<and>
         map_of r ''success'' = Some (VBool False)))"
proof (intro conjI impI)
  show "resolutions (fst (init key w0)) = [(''720p'', ''720p'')]"
    by (simp add: init_def)
next
  assume "resolution \<noteq> ''720p''"
  then have "resolution \<notin> set (map fst (resolutions (fst (init key w0))))"
    by (simp add: init_def)
  then have "\<exists>msg. generate_image (fst (init key w0)) w image_url style user_id
                aspect_ratio resolution = Some (Inr (failure_result w style msg), [])"
    by (intro generate_image_invalid) simp
  then show "\<exists>r. generate_image (fst (init key w0)) w image_url style user_id
                aspect_ratio resolution = Some (Inr r, []) \<and>
         map_of r ''success'' = Some (VBool False)"
    by (auto simp: failure_result_keys)
qed

theorem generate_image_checks_resolution_witness:
  "\<exists>r. generate_image (fst (init ''k'' sample_world)) (snd (init ''k'' sample_world))
         ''https://api.replicate.com/v1/files/f1'' ''art'' 7 ''3:4'' ''1080p'' =
           Some (Inr r, []) \<and>
       map_of r ''success'' = Some (VBool False)"
  using generate_image_checks_resolution
    [of "''k''" sample_world "''1080p''" "snd (init ''k'' sample_world)"
        "''https://api.replicate.com/v1/files/f1''" "''art''" 7 "''3:4''"]
  by simp
























section \<open>Properties of the presentation helpers\<close>

lemma style_rows_inv:
  assumes "style_rows items keyboard row = (keyboard', row')"
    and "length row < 2"
    and "\<forall>r \<in> set keyboard. length r = 2"
  shows "length row' < 2 \<and> (\<forall>r \<in> set keyboard'. length r = 2) \<and>
         concat keyboard' @ row' =
           concat keyboard @ row @
           map (\<lambda>(style_key, style_info).
                  \<lparr>btn_text = style_name style_info,
                   callback_data = ''transform_style:'' @ style_key\<rparr>) items"
  using assms
proof (induction items arbitrary: keyboard row)
  case Nil
  then show ?case by simp
next
  case (Cons item items)
  obtain style_key style_info where item: "item = (style_key, style_info)"
    by (cases item)
  let ?b = "\<lparr>btn_text = style_name style_info,
             callback_data = ''transform_style:'' @ style_key\<rparr>"
  show ?case
  proof (cases "length (row @ [?b]) = 2")
    case True
    with Cons.prems(1) item
    have "style_rows items (keyboard @ [row @ [?b]]) [] = (keyboard', row')"
      by (simp add: Let_def)
    from Cons.IH [OF this] True Cons.prems(3) item show ?thesis
      by simp
  next
    case False
    with Cons.prems(1) item
    have "style_rows items keyboard (row @ [?b]) = (keyboard', row')"
      by (simp add: Let_def)
    moreover from False have "length row + 1 \<noteq> 2" by simp
    with Cons.prems(2) have "length row + 1 < 2" by arith
    then have "length (row @ [?b]) < 2" by simp
    ultimately show ?thesis
      using Cons.IH [of keyboard "row @ [?b]"] Cons.prems(3) item by simp
  qed
qed

lemma ratio_rows_inv:
  assumes "ratio_rows style_key keys keyboard row = (keyboard', row')"
    and "length row < 3"
    and "\<forall>r \<in> set keyboard. length r = 3"
  shows "length row' < 3 \<and> (\<forall>r \<in> set keyboard'. length r = 3) \<and>
         concat keyboard' @ row' =
           concat keyboard @ row @
           map (\<lambda>ratio_key.
                  \<lparr>btn_text = ratio_key,
                   callback_data = ''transform_ratio:'' @ style_key @ '':'' @ ratio_key\<rparr>) keys"
  using assms
proof (induction keys arbitrary: keyboard row)
  case Nil
  then show ?case by simp
next
  case (Cons ratio_key keys)
  let ?b = "\<lparr>btn_text = ratio_key,
             callback_data = ''transform_ratio:'' @ style_key @ '':'' @ ratio_key\<rparr>"
  show ?case
  proof (cases "length (row @ [?b]) = 3")
    case True
    with Cons.prems(1)
    have "ratio_rows style_key keys (keyboard @ [row @ [?b]]) [] = (keyboard', row')"
      by (simp add: Let_def)
    from Cons.IH [OF this] True Cons.prems(3) show ?thesis
      by simp
  next
    case False
    with Cons.prems(1)
    have "ratio_rows style_key keys keyboard (row @ [?b]) = (keyboard', row')"
      by (simp add: Let_def)
    moreover from False have "length row + 1 \<noteq> 3" by simp
    with Cons.prems(2) have "length row + 1 < 3" by arith
    then have "length (row @ [?b]) < 3" by simp
    ultimately show ?thesis
      using Cons.IH [of keyboard "row @ [?b]"] Cons.prems(3) by simp
  qed
qed

lemma resolution_row_eq:
  "resolution_row style_key ar keys row =
     row @ map (\<lambda>res_key.
                  \<lparr>btn_text = res_key,
                   callback_data = ''transform_resolution:'' @ style_key @ '':'' @ ar @
                                   '':'' @ res_key\<rparr>) keys"
  by (induction keys arbitrary: row) (simp_all add: Let_def)

lemma style_keyboard_rows:
  "\<exists>rows. fst (get_style_keyboard g) = rows @ [cancel_row] \<and>
     (\<forall>r \<in> set rows. 1 \<le> length r \<and> length r \<le> 2) \<and>
     concat rows =
       map (\<lambda>(style_key, style_info).
              \<lparr>btn_text = style_name style_info,
               callback_data = ''transform_style:'' @ style_key\<rparr>) (styles g)"
proof -
  obtain keyboard row where run: "style_rows (styles g) [] [] = (keyboard, row)"
    by (cases "style_rows (styles g) [] []")
  from style_rows_inv [OF run] have
    inv: "length row < 2" "\<forall>r \<in> set keyboard. length r = 2"
      "concat keyboard @ row =
         map (\<lambda>(style_key, style_info).
              \<lparr>btn_text = style_name style_info,
               callback_data = ''transform_style:'' @ style_key\<rparr>) (styles g)"
    by simp_all
  let ?rows = "if row \<noteq> [] then keyboard @ [row] else keyboard"
  from run have "fst (get_style_keyboard g) = ?rows @ [cancel_row]"
    by (simp add: get_style_keyboard_def Let_def)
  moreover from inv have "\<forall>r \<in> set ?rows. 1 \<le> length r \<and> length r \<le> 2"
    by (auto simp: Suc_le_eq)
  moreover from inv(3) have "concat ?rows =
       map (\<lambda>(style_key, style_info).
              \<lparr>btn_text = style_name style_info,
               callback_data = ''transform_style:'' @ style_key\<rparr>) (styles g)"
    by auto
  ultimately show ?thesis by blast
qed

lemma aspect_ratio_keyboard_rows:
  "\<exists>rows. fst (get_aspect_ratio_keyboard g style_key) = rows @ [cancel_row] \<and>
     (\<forall>r \<in> set rows. 1 \<le> length r \<and> length r \<le> 3) \<and>
     concat rows =
       map (\<lambda>ratio_key.
              \<lparr>btn_text = ratio_key,
               callback_data = ''transform_ratio:'' @ style_key @ '':'' @ ratio_key\<rparr>)
           (map fst (aspect_ratios g))"
proof -
  obtain keyboard row where
    run: "ratio_rows style_key (map fst (aspect_ratios g)) [] [] = (keyboard, row)"
    by (cases "ratio_rows style_key (map fst (aspect_ratios g)) [] []")
  from ratio_rows_inv [OF run] have
    inv: "length row < 3" "\<forall>r \<in> set keyboard. length r = 3"
      "concat keyboard @ row =
         map (\<lambda>ratio_key.
              \<lparr>btn_text = ratio_key,
               callback_data = ''transform_ratio:'' @ style_key @ '':'' @ ratio_key\<rparr>)
           (map fst (aspect_ratios g))"
    by simp_all
  let ?rows = "if row \<noteq> [] then keyboard @ [row] else keyboard"
  from run have "fst (get_aspect_ratio_keyboard g style_key) = ?rows @ [cancel_row]"
    by (simp add: get_aspect_ratio_keyboard_def Let_def)
  moreover from inv have "\<forall>r \<in> set ?rows. 1 \<le> length r \<and> length r \<le> 3"
    by (auto simp: Suc_le_eq)
  moreover from inv(3) have "concat ?rows =
       map (\<lambda>ratio_key.
              \<lparr>btn_text = ratio_key,
               callback_data = ''transform_ratio:'' @ style_key @ '':'' @ ratio_key\<rparr>)
           (map fst (aspect_ratios g))"
    by auto
  ultimately show ?thesis by blast
qed

lemma resolution_keyboard_rows:
  "\<exists>rows. fst (get_resolution_keyboard g style_key ar) = rows @ [cancel_row] \<and>
     concat rows =
       map (\<lambda>res_key.
              \<lparr>btn_text = res_key,
               callback_data = ''transform_resolution:'' @ style_key @ '':'' @ ar @
                               '':'' @ res_key\<rparr>)
           (map fst (resolutions g))"
  by (auto simp: get_resolution_keyboard_def Let_def resolution_row_eq)

text \<open>
  Claim C9. Each of the three keyboards is some rows followed by the cancel row, whose one
  button has the callback data \<open>transform_cancel\<close>. The rows before it hold one or two
  buttons each in the style keyboard and one to three in the aspect-ratio keyboard, and
  read in order they are the buttons of the configured styles (of the configured aspect
  ratios), one for each entry of the table in the table's order; so where the keys of the
  table differ from each other, as the keys of a \<open>dict\<close> do, no two of these buttons have
  the same callback data.
\<close>

theorem keyboards_end_with_cancel_row:
  "map callback_data cancel_row = [''transform_cancel''] \<and>
   (\<exists>rows. fst (get_style_keyboard g) = rows @ [cancel_row] \<and>
      (\<forall>r \<in> set rows. length r \<le> 2) \<and>
      concat rows =
        map (\<lambda>(style_key, style_info).
               \<lparr>btn_text = style_name style_info,
                callback_data = ''transform_style:'' @ style_key\<rparr>) (styles g) \<and>
      (distinct (map fst (styles g)) \<longrightarrow> distinct (map callback_data (concat rows)))) \<and>
   (\<exists>rows. fst (get_aspect_ratio_keyboard g style_key) = rows @ [cancel_row] \<and>
      (\<forall>r \<in> set rows. length r \<le> 3) \<and>
      concat rows =
        map (\<lambda>ratio_key.
               \<lparr>btn_text = ratio_key,
                callback_data = ''transform_ratio:'' @ style_key @ '':'' @ ratio_key\<rparr>)
            (map fst (aspect_ratios g)) \<and>
      (distinct (map fst (aspect_ratios g)) \<longrightarrow>
         distinct (map callback_data (concat rows)))) \<and>
   (\<exists>rows. fst (get_resolution_keyboard g style_key ar) = rows @ [cancel_row])"
proof (intro conjI)
  show "map callback_data cancel_row = [''transform_cancel'']"
    by (simp add: cancel_row_def)
next
  from style_keyboard_rows [of g] obtain rows where
    rows: "fst (get_style_keyboard g) = rows @ [cancel_row]"
      "\<forall>r \<in> set rows. 1 \<le> length r \<and> length r \<le> 2"
      "concat rows =
        map (\<lambda>(style_key, style_info).
               \<lparr>btn_text = style_name style_info,
                callback_data = ''transform_style:'' @ style_key\<rparr>) (styles g)"
    by blast
  have "map callback_data (concat rows) = map (\<lambda>k. ''transform_style:'' @ k) (map fst (styles g))"
    unfolding rows(3) by (simp add: case_prod_beta comp_def)
  then have "distinct (map fst (styles g)) \<longrightarrow> distinct (map callback_data (concat rows))"
    by (simp add: distinct_map inj_on_def)
  with rows show "\<exists>rows. fst (get_style_keyboard g) = rows @ [cancel_row] \<and>
      (\<forall>r \<in> set rows. length r \<le> 2) \<and>
      concat rows =
        map (\<lambda>(style_key, style_info).
               \<lparr>btn_text = style_name style_info,
                callback_data = ''transform_style:'' @ style_key\<rparr>) (styles g) \<and>
      (distinct (map fst (styles g)) \<longrightarrow> distinct (map callback_data (concat rows)))"
    by blast
next
  from aspect_ratio_keyboard_rows [of g style_key] obtain rows where
    rows: "fst (get_aspect_ratio_keyboard g style_key) = rows @ [cancel_row]"
      "\<forall>r \<in> set rows. 1 \<le> length r \<and> length r \<le> 3"
      "concat rows =
        map (\<lambda>ratio_key.
               \<lparr>btn_text = ratio_key,
                callback_data = ''transform_ratio:'' @ style_key @ '':'' @ ratio_key\<rparr>)
            (map fst (aspect_ratios g))"
    by blast
  have "map callback_data (concat rows) =
          map (\<lambda>k. (''transform_ratio:'' @ style_key @ '':'') @ k) (map fst (aspect_ratios g))"
    unfolding rows(3) by (simp add: comp_def)
  then have "distinct (map fst (aspect_ratios g)) \<longrightarrow>
               distinct (map callback_data (concat rows))"
    by (simp only: distinct_map) (simp add: inj_on_def distinct_map)
  with rows show "\<exists>rows. fst (get_aspect_ratio_keyboard g style_key) = rows @ [cancel_row] \<and>
      (\<forall>r \<in> set rows. length r \<le> 3) \<and>
      concat rows =
        map (\<lambda>ratio_key.
               \<lparr>btn_text = ratio_key,
                callback_data = ''transform_ratio:'' @ style_key @ '':'' @ ratio_key\<rparr>)
            (map fst (aspect_ratios g)) \<and>
      (distinct (map fst (aspect_ratios g)) \<longrightarrow>
         distinct (map callback_data (concat rows)))"
    by blast
next
  from resolution_keyboard_rows [of g style_key ar]
  show "\<exists>rows. fst (get_resolution_keyboard g style_key ar) = rows @ [cancel_row]"
    by blast
qed

theorem keyboards_end_with_cancel_row_witness:
  "(\<exists>rows. fst (get_style_keyboard (fst (init ''k'' sample_world))) = rows @ [cancel_row] \<and>
      rows \<noteq> [] \<and> (\<forall>r \<in> set rows. length r \<le> 2) \<and>
      distinct (map callback_data (concat rows))) \<and>
   (\<exists>rows. fst (get_aspect_ratio_keyboard (fst (init ''k'' sample_world)) ''art'') =
        rows @ [cancel_row] \<and>
      rows \<noteq> [] \<and> (\<forall>r \<in> set rows. length r \<le> 3) \<and>
      distinct (map callback_data (concat rows)))"
proof
  from keyboards_end_with_cancel_row [of "fst (init ''k'' sample_world)" "''art''" "''3:4''"]
  obtain rows where
    rows: "fst (get_style_keyboard (fst (init ''k'' sample_world))) = rows @ [cancel_row]"
      "\<forall>r \<in> set rows. length r \<le> 2"
      "concat rows =
        map (\<lambda>(style_key, style_info).
               \<lparr>btn_text = style_name style_info,
                callback_data = ''transform_style:'' @ style_key\<rparr>)
            (styles (fst (init ''k'' sample_world)))"
      "distinct (map fst (styles (fst (init ''k'' sample_world)))) \<longrightarrow>
         distinct (map callback_data (concat rows))"
    by blast
  have "distinct (map fst (styles (fst (init ''k'' sample_world))))"
    by (simp add: init_def)
  with rows(4) have "distinct (map callback_data (concat rows))" by simp
  moreover from rows(3) have "concat rows \<noteq> []" by (simp add: init_def)
  then have "rows \<noteq> []" by auto
  ultimately show "\<exists>rows. fst (get_style_keyboard (fst (init ''k'' sample_world))) =
        rows @ [cancel_row] \<and>
      rows \<noteq> [] \<and> (\<forall>r \<in> set rows. length r \<le> 2) \<and>
      distinct (map callback_data (concat rows))"
    using rows(1,2) by blast
next
  from keyboards_end_with_cancel_row [of "fst (init ''k'' sample_world)" "''art''" "''3:4''"]
  obtain rows where
    rows: "fst (get_aspect_ratio_keyboard (fst (init ''k'' sample_world)) ''art'') =
        rows @ [cancel_row]"
      "\<forall>r \<in> set rows. length r \<le> 3"
      "concat rows =
        map (\<lambda>ratio_key.
               \<lparr>btn_text = ratio_key,
                callback_data = ''transform_ratio:'' @ ''art'' @ '':'' @ ratio_key\<rparr>)
            (map fst (aspect_ratios (fst (init ''k'' sample_world))))"
      "distinct (map fst (aspect_ratios (fst (init ''k'' sample_world)))) \<longrightarrow>
         distinct (map callback_data (concat rows))"
    by blast
  have "distinct (map fst (aspect_ratios (fst (init ''k'' sample_world))))"
    by (simp add: init_def)
  with rows(4) have "distinct (map callback_data (concat rows))" by simp
  moreover from rows(3) have "concat rows \<noteq> []" by (simp add: init_def)
  then have "rows \<noteq> []" by auto
  ultimately show "\<exists>rows. fst (get_aspect_ratio_keyboard (fst (init ''k'' sample_world))
        ''art'') = rows @ [cancel_row] \<and>
      rows \<noteq> [] \<and> (\<forall>r \<in> set rows. length r \<le> 3) \<and>
      distinct (map callback_data (concat rows))"
    using rows(1,2) by blast
qed

text \<open>
  Claim C8. A call of a presentation helper leaves the generator as it found it and makes
  no call on the outside. Its value depends on nothing but its arguments and the table it
  shows: on generators with the same styles, aspect ratios and resolutions, calls with the
  same arguments give the same values, whatever else differs; and a second call with the
  same arguments, on the generator as the first call left it, gives the value of the
  first.
\<close>

theorem presentation_helpers_pure:
  "snd (get_style_keyboard g) = (g, []) \<and>
   snd (get_aspect_ratio_keyboard g style_key) = (g, []) \<and>
   snd (get_resolution_keyboard g style_key ar) = (g, []) \<and>
   snd (get_style_description g style) = (g, []) \<and>
   snd (get_aspect_ratio_description g) = (g, []) \<and>
   (styles g' = styles g \<and> aspect_ratios g' = aspect_ratios g \<and>
    resolutions g' = resolutions g \<longrightarrow>
      fst (get_style_keyboard g') = fst (get_style_keyboard g) \<and>
      fst (get_aspect_ratio_keyboard g' style_key) =
        fst (get_aspect_ratio_keyboard g style_key) \<and>
      fst (get_resolution_keyboard g' style_key ar) =
        fst (get_resolution_keyboard g style_key ar) \<and>
      fst (get_style_description g' style) = fst (get_style_description g style) \<and>
      fst (get_aspect_ratio_description g') = fst (get_aspect_ratio_description g)) \<and>
   fst (get_style_keyboard (fst (snd (get_style_keyboard g)))) =
     fst (get_style_keyboard g) \<and>
   fst (get_aspect_ratio_keyboard (fst (snd (get_aspect_ratio_keyboard g style_key)))
          style_key) =
     fst (get_aspect_ratio_keyboard g style_key) \<and>
   fst (get_resolution_keyboard (fst (snd (get_resolution_keyboard g style_key ar)))
          style_key ar) =
     fst (get_resolution_keyboard g style_key ar) \<and>
   fst (get_style_description (fst (snd (get_style_description g style))) style) =
     fst (get_style_description g style) \<and>
   fst (get_aspect_ratio_description (fst (snd (get_aspect_ratio_description g)))) =
     fst (get_aspect_ratio_description g)"
  by (simp add: get_style_keyboard_def get_aspect_ratio_keyboard_def
        get_resolution_keyboard_def get_style_description_def
        get_aspect_ratio_description_def Let_def split: prod.splits)

theorem presentation_helpers_pure_witness:
  "fst (get_style_keyboard (fst (init ''another key'' sample_world))) =
     fst (get_style_keyboard (fst (init ''k'' sample_world))) \<and>
   fst (get_aspect_ratio_keyboard (fst (init ''another key'' sample_world)) ''art'') =
     fst (get_aspect_ratio_keyboard (fst (init ''k'' sample_world)) ''art'') \<and>
   fst (get_resolution_keyboard (fst (init ''another key'' sample_world)) ''art'' ''3:4'') =
     fst (get_resolution_keyboard (fst (init ''k'' sample_world)) ''art'' ''3:4'') \<and>
   fst (get_style_description (fst (init ''another key'' sample_world)) ''art'') =
     fst (get_style_description (fst (init ''k'' sample_world)) ''art'') \<and>
   fst (get_aspect_ratio_description (fst (init ''another key'' sample_world))) =
     fst (get_aspect_ratio_description (fst (init ''k'' sample_world))) \<and>
   fst (init ''another key'' sample_world) \<noteq> fst (init ''k'' sample_world)"
proof -
  have same: "styles (fst (init ''another key'' sample_world)) =
          styles (fst (init ''k'' sample_world)) \<and>
        aspect_ratios (fst (init ''another key'' sample_world)) =
          aspect_ratios (fst (init ''k'' sample_world)) \<and>
        resolutions (fst (init ''another key'' sample_world)) =
          resolutions (fst (init ''k'' sample_world))"
    by (simp add: init_def)
  have differ: "fst (init ''another key'' sample_world) \<noteq> fst (init ''k'' sample_world)"
    by (simp add: init_def)
  from presentation_helpers_pure
         [of "fst (init ''k'' sample_world)" "''art''" "''3:4''" "''art''"
             "fst (init ''another key'' sample_world)",
          THEN conjunct2, THEN conjunct2, THEN conjunct2, THEN conjunct2, THEN conjunct2,
          THEN conjunct1, THEN mp, OF same]
       differ
  show ?thesis by blast
qed

end
